theory Spec2Isabelle
  imports Complex_Main
begin

section \<open>Common data: coefficient vectors, errors\<close>

text \<open>
  A \<open>fenics.Function\<close> is represented by its coefficient array (\<open>f.vector()[:]\<close>), a
  tuple of control fields by the list of these arrays. Python floats are idealised as
  real numbers. Every \<open>raise\<close>, failed \<open>assert\<close> and failing index or division of the
  source is a value \<open>Inl e\<close> of the result type; \<open>NonFinite\<close> stands for a float \<open>inf\<close> or
  \<open>nan\<close>, which the reals do not have.
\<close>

type_synonym field = "real list"
type_synonym cvec = "field list"

datatype error =
    IndexError
  | ValueError
  | ZeroDivisionError
  | AssertionError
  | AttributeError
  | NonFinite
  | SystemExit string
  | Exception string

definition ebind :: "error + 'a \<Rightarrow> ('a \<Rightarrow> error + 'b) \<Rightarrow> error + 'b" where
  "ebind m f = (case m of Inl e \<Rightarrow> Inl e | Inr x \<Rightarrow> f x)"

text \<open>Python float division \<open>a / b\<close>: raises \<open>ZeroDivisionError\<close> for \<open>b = 0\<close>.\<close>

definition py_div :: "real \<Rightarrow> real \<Rightarrow> error + real" where
  "py_div a b = (if b = 0 then Inl ZeroDivisionError else Inr (a / b))"

text \<open>\<open>v[idx] = 0.0\<close> for an array of indices \<open>idx\<close>; an index outside the vector raises.\<close>

definition set_zero :: "nat list \<Rightarrow> field \<Rightarrow> error + field" where
  "set_zero idx v =
     (if \<forall>i \<in> set idx. i < length v
      then Inr (fold (\<lambda>i w. w[i := 0]) idx v)
      else Inl IndexError)"

text \<open>
  \<open>for j in range(len(self.controls)): d[j] = f(a[j], d[j])\<close>: the list \<open>d\<close> has one
  field per control; a list \<open>a\<close> with fewer entries raises at \<open>a[j]\<close>, further entries
  of \<open>a\<close> are not looked at.
\<close>

fun for_controls :: "('a \<Rightarrow> field \<Rightarrow> error + field) \<Rightarrow> 'a list \<Rightarrow> cvec \<Rightarrow> error + cvec" where
  "for_controls f a [] = Inr []"
| "for_controls f [] (d # ds) = Inl IndexError"
| "for_controls f (x # a) (d # ds) =
     ebind (f x d) (\<lambda>d'. ebind (for_controls f a ds) (\<lambda>ds'. Inr (d' # ds')))"

text \<open>\<open>d[:] -= alpha * y[:]\<close> and \<open>d[:] += s[:] * c\<close>; arrays of different shape raise.\<close>

definition sub_scaled :: "real \<Rightarrow> field \<Rightarrow> field \<Rightarrow> error + field" where
  "sub_scaled alpha y d =
     (if length y = length d then Inr (map2 (\<lambda>dv yv. dv - alpha * yv) d y) else Inl ValueError)"

definition add_scaled :: "real \<Rightarrow> field \<Rightarrow> field \<Rightarrow> error + field" where
  "add_scaled c s d =
     (if length s = length d then Inr (map2 (\<lambda>dv sv. dv + sv * c) d s) else Inl ValueError)"

section \<open>InnerLBFGS (inner\_lbfgs.py)\<close>

text \<open>
  The attributes of the solver object that \<open>compute_search_direction\<close> and \<open>run\<close>
  read or write. \<open>world\<close> stands for everything behind the field provider (controls,
  state and adjoint solutions, the solved-flags); it is only handed to the collaborators.
  Without memory (\<open>memory_vectors \<le> 0\<close>) the three deques do not exist in the source;
  they are never read then, and are the empty list here.
\<close>

record 'w inner_lbfgs =
  maximum_iterations :: int
  tolerance :: real
  atol :: real
  rtol :: real
  soft_exit :: bool
  control_dim :: nat
  memory_vectors :: int
  use_bfgs_scaling :: bool
  reduced_gradient :: cvec
  first_gradient_norm :: real
  first_iteration :: bool
  history_s :: "cvec list"
  history_y :: "cvec list"
  history_rho :: "real list"
  gradients_prev :: cvec
  search_directions :: cvec
  iteration :: int
  relative_norm :: real
  gradient_norm :: real
  gradient_norm_initial :: real
  directional_derivative :: real
  stepsize :: real
  line_search_broken :: bool
  world :: 'w

text \<open>
  The collaborators, which are not part of inner\_lbfgs.py, are parameters:
  \<open>form_handler.scalar_product\<close>, \<open>gradient_problem.solve\<close> (which may stop with
  \<open>SystemExit\<close>) followed by reading \<open>self.gradients\<close>, and \<open>line_search.search\<close>, which
  holds a reference to the solver, moves the controls, and sets \<open>stepsize\<close> and
  \<open>line_search_broken\<close>. The solved-flags set to \<open>False\<close> before each solve belong to the
  world: \<open>gradient_solve\<close> stands for re-arming them and solving.
\<close>

record 'w provider =
  scalar_product :: "cvec \<Rightarrow> cvec \<Rightarrow> real"
  gradient_solve :: "'w \<Rightarrow> error + ('w \<times> cvec)"
  line_search :: "cvec \<Rightarrow> 'w inner_lbfgs \<Rightarrow> error + ('w \<times> real \<times> bool)"

subsection \<open>compute\_search\_direction\<close>

text \<open>Lines 50-54: the pass over the history from the most recent entry on.\<close>

fun forward_pass ::
  "(cvec \<Rightarrow> cvec \<Rightarrow> real) \<Rightarrow> cvec list \<Rightarrow> cvec list \<Rightarrow> real list \<Rightarrow> cvec
    \<Rightarrow> error + (cvec \<times> real list)" where
  "forward_pass sp [] hy hr d = Inr (d, [])"
| "forward_pass sp (s # hs) (y # hy) (r # hr) d =
     (let alpha = r * sp s d in
      ebind (for_controls (sub_scaled alpha) y d) (\<lambda>d'.
      ebind (forward_pass sp hs hy hr d') (\<lambda>(d'', alphas).
      Inr (d'', alpha # alphas))))"
| "forward_pass sp (s # hs) hy hr d = Inl IndexError"

text \<open>Lines 56-59.\<close>

definition scaling_factor ::
  "(cvec \<Rightarrow> cvec \<Rightarrow> real) \<Rightarrow> bool \<Rightarrow> int \<Rightarrow> cvec list \<Rightarrow> cvec list \<Rightarrow> error + real" where
  "scaling_factor sp scaling iter hs hy =
     (if scaling \<and> iter > 0 then
        (case (hy, hs) of
           (y0 # _, s0 # _) \<Rightarrow> py_div (sp y0 s0) (sp y0 y0)
         | _ \<Rightarrow> Inl IndexError)
      else Inr 1)"

text \<open>
  Lines 65-69: the pass with the indices \<open>-1 - i\<close>; the four lists are handed over
  reversed, so that position \<open>i\<close> of a reversed list is position \<open>-1 - i\<close> of the deque.
\<close>

fun backward_pass ::
  "(cvec \<Rightarrow> cvec \<Rightarrow> real) \<Rightarrow> cvec list \<Rightarrow> cvec list \<Rightarrow> real list \<Rightarrow> real list \<Rightarrow> cvec
    \<Rightarrow> error + cvec" where
  "backward_pass sp [] hy hr ha d = Inr d"
| "backward_pass sp (s # hs) (y # hy) (r # hr) (a # ha) d =
     (let beta = r * sp y d in
      ebind (for_controls (add_scaled (a - beta)) s d) (\<lambda>d'.
      backward_pass sp hs hy hr ha d'))"
| "backward_pass sp (s # hs) hy hr ha d = Inl IndexError"

text \<open>Lines 45-69: the direction after the second pass, before lines 71-73.\<close>

definition two_loop ::
  "(cvec \<Rightarrow> cvec \<Rightarrow> real) \<Rightarrow> 'w inner_lbfgs \<Rightarrow> cvec \<Rightarrow> nat list list \<Rightarrow> error + cvec" where
  "two_loop sp st grad idx_active =
     ebind (for_controls set_zero idx_active grad) (\<lambda>d0.
     ebind (forward_pass sp (history_s st) (history_y st) (history_rho st) d0) (\<lambda>(d1, alphas).
     ebind (scaling_factor sp (use_bfgs_scaling st) (iteration st) (history_s st) (history_y st))
       (\<lambda>factor.
     ebind (for_controls (\<lambda>a d. set_zero a (map (\<lambda>v. v * factor) d)) idx_active d1) (\<lambda>d2.
     backward_pass sp (rev (history_s st)) (rev (history_y st)) (rev (history_rho st))
       (rev alphas) d2))))"

text \<open>Line 72 for every control: the direction to which line 73 applies the negation.\<close>

definition before_negation ::
  "(cvec \<Rightarrow> cvec \<Rightarrow> real) \<Rightarrow> 'w inner_lbfgs \<Rightarrow> cvec \<Rightarrow> nat list list \<Rightarrow> error + cvec" where
  "before_negation sp st grad idx_active =
     ebind (two_loop sp st grad idx_active) (for_controls set_zero idx_active)"

definition compute_search_direction ::
  "(cvec \<Rightarrow> cvec \<Rightarrow> real) \<Rightarrow> 'w inner_lbfgs \<Rightarrow> cvec \<Rightarrow> nat list list \<Rightarrow> error + cvec" where
  "compute_search_direction sp st grad idx_active =
     (if memory_vectors st > 0 \<and> length (history_s st) > 0 then
        ebind (two_loop sp st grad idx_active)
          (for_controls (\<lambda>a d. ebind (set_zero a d) (\<lambda>d'. Inr (map (\<lambda>v. v * (- 1)) d')))
             idx_active)
      else
        for_controls set_zero idx_active (map (map uminus) grad))"

text \<open>The Euclidean scalar product of two tuples of fields, used for concrete runs.\<close>

definition dot :: "cvec \<Rightarrow> cvec \<Rightarrow> real" where
  "dot a b = sum_list (map2 (\<lambda>x y. sum_list (map2 (*) x y)) a b)"


subsection \<open>run\<close>

text \<open>
  Lines 108-112. \<open>form_handler.control_dim\<close> is the number of control fields; the
  fallback overwrites the first \<open>control_dim\<close> fields of the direction.
\<close>

definition steepest_fallback :: "nat \<Rightarrow> cvec \<Rightarrow> cvec \<Rightarrow> error + cvec" where
  "steepest_fallback n rg sd =
     (if n \<le> length sd \<and> n \<le> length rg
      then Inr (map (map uminus) (take n rg) @ drop n sd)
      else Inl IndexError)"

definition descent_safeguard ::
  "(cvec \<Rightarrow> cvec \<Rightarrow> real) \<Rightarrow> 'w inner_lbfgs \<Rightarrow> error + 'w inner_lbfgs" where
  "descent_safeguard sp st =
     (let st1 = st\<lparr>directional_derivative :=
                      sp (search_directions st) (reduced_gradient st)\<rparr> in
      if directional_derivative st1 > 0 then
        ebind (steepest_fallback (control_dim st1) (reduced_gradient st1) (search_directions st1))
          (\<lambda>d. Inr (st1\<lparr>search_directions := d\<rparr>))
      else Inr st1)"

text \<open>Lines 106-112: the state in which \<open>line_search.search\<close> is called.\<close>

definition choose_direction ::
  "(cvec \<Rightarrow> cvec \<Rightarrow> real) \<Rightarrow> nat list list \<Rightarrow> 'w inner_lbfgs \<Rightarrow> error + 'w inner_lbfgs" where
  "choose_direction sp idx_active st =
     ebind (compute_search_direction sp st (reduced_gradient st) idx_active) (\<lambda>d.
     descent_safeguard sp (st\<lparr>search_directions := d\<rparr>))"

text \<open>
  Lines 139-141, one round per control: \<open>storage_y[i] = reduced_gradient[i] -
  gradients_prev[i]\<close> and \<open>storage_s[i] = stepsize * search_directions[i]\<close>.
\<close>

definition field_sub :: "field \<Rightarrow> field \<Rightarrow> error + field" where
  "field_sub a b = (if length a = length b then Inr (map2 (-) a b) else Inl ValueError)"

definition scaled_copy :: "real \<Rightarrow> field \<Rightarrow> field \<Rightarrow> error + field" where
  "scaled_copy t d target =
     (if length d = length target then Inr (map (\<lambda>v. t * v) d) else Inl ValueError)"

fun storage_loop :: "real \<Rightarrow> cvec \<Rightarrow> cvec \<Rightarrow> cvec \<Rightarrow> error + (cvec \<times> cvec)" where
  "storage_loop t [] gp sd = Inr ([], [])"
| "storage_loop t (r # rg) (p # gp) (d # sd) =
     ebind (field_sub r p) (\<lambda>y.
     ebind (scaled_copy t d r) (\<lambda>s.
     ebind (storage_loop t rg gp sd) (\<lambda>(ys, ss).
     Inr (y # ys, s # ss))))"
| "storage_loop t (r # rg) gp sd = Inl IndexError"

text \<open>\<open>deque.pop()\<close>: removes the last entry, raises on an empty deque.\<close>

definition pop :: "'a list \<Rightarrow> error + 'a list" where
  "pop xs = (case xs of [] \<Rightarrow> Inl IndexError | _ \<Rightarrow> Inr (butlast xs))"

text \<open>Lines 143-156, for the pair \<open>(storage_y, storage_s)\<close>.\<close>

definition push_history ::
  "(cvec \<Rightarrow> cvec \<Rightarrow> real) \<Rightarrow> cvec \<Rightarrow> cvec \<Rightarrow> 'w inner_lbfgs \<Rightarrow> error + 'w inner_lbfgs" where
  "push_history sp storage_y storage_s st =
     (let st1 = st\<lparr>history_y := storage_y # history_y st\<rparr>;
          st2 = st1\<lparr>history_s := storage_s # history_s st1\<rparr> in
      ebind (py_div 1 (sp storage_y storage_s)) (\<lambda>rho.
      let st3 = st2\<lparr>history_rho := rho # history_rho st2\<rparr> in
      ebind (py_div 1 rho) (\<lambda>curvature.
      let st4 = (if curvature \<le> 0
                 then st3\<lparr>history_s := [], history_y := [], history_rho := []\<rparr>
                 else st3) in
      if int (length (history_s st4)) > memory_vectors st4 then
        ebind (pop (history_s st4)) (\<lambda>hs.
        ebind (pop (history_y st4)) (\<lambda>hy.
        ebind (pop (history_rho st4)) (\<lambda>hr.
        Inr (st4\<lparr>history_s := hs, history_y := hy, history_rho := hr\<rparr>))))
      else Inr st4)))"

text \<open>Lines 138-156.\<close>

definition history_update ::
  "(cvec \<Rightarrow> cvec \<Rightarrow> real) \<Rightarrow> 'w inner_lbfgs \<Rightarrow> error + 'w inner_lbfgs" where
  "history_update sp st =
     (if memory_vectors st > 0 then
        ebind (storage_loop (stepsize st) (reduced_gradient st) (gradients_prev st)
                 (search_directions st)) (\<lambda>(storage_y, storage_s).
        push_history sp storage_y storage_s st)
      else Inr st)"

text \<open>Lines 158-165; the flag says whether the loop goes on.\<close>

definition count_iteration :: "'w inner_lbfgs \<Rightarrow> error + (bool \<times> 'w inner_lbfgs)" where
  "count_iteration st =
     (let st1 = st\<lparr>iteration := iteration st + 1\<rparr> in
      if iteration st1 \<ge> maximum_iterations st1 then
        (if soft_exit st1 then Inr (False, st1)
         else Inl (SystemExit ''Maximum number of iterations exceeded.''))
      else Inr (True, st1))"

text \<open>
  Lines 122-136: keep the previous reduced gradient, solve for the gradient again, and
  recompute the reduced gradient and the norms. \<open>np.sqrt\<close> is applied to the scalar
  product of the reduced gradient with itself, which is not negative for an inner
  product.
\<close>

definition update_gradient ::
  "'w provider \<Rightarrow> nat list list \<Rightarrow> 'w inner_lbfgs \<Rightarrow> error + 'w inner_lbfgs" where
  "update_gradient env idx_active st =
     (let st2 = (if memory_vectors st > 0
                 then st\<lparr>gradients_prev := reduced_gradient st\<rparr> else st) in
      ebind (gradient_solve env (world st2)) (\<lambda>(w', gradients).
      ebind (for_controls set_zero idx_active gradients) (\<lambda>rg.
      let st3 = st2\<lparr>world := w', reduced_gradient := rg\<rparr>;
          st4 = st3\<lparr>gradient_norm :=
                      sqrt (scalar_product env (reduced_gradient st3) (reduced_gradient st3))\<rparr>
      in Inr (st4\<lparr>relative_norm := gradient_norm st4 / gradient_norm_initial st4\<rparr>))))"

text \<open>
  Lines 115-165, after \<open>line_search.search\<close> has returned the new world, the step size
  and its failure flag.
\<close>

definition after_line_search ::
  "'w provider \<Rightarrow> nat list list \<Rightarrow> 'w inner_lbfgs \<Rightarrow> 'w \<times> real \<times> bool
    \<Rightarrow> error + (bool \<times> 'w inner_lbfgs)" where
  "after_line_search env idx_active st res =
     (case res of (w, t, broken) \<Rightarrow>
      let st1 = st\<lparr>world := w, stepsize := t, line_search_broken := broken\<rparr> in
      if line_search_broken st1 then
        (if soft_exit st1 then Inr (False, st1) else Inl (SystemExit ''Armijo rule failed.''))
      else
        ebind (update_gradient env idx_active st1) (\<lambda>st5.
        ebind (history_update (scalar_product env) st5) count_iteration))"

text \<open>One round of the while loop, lines 106-165.\<close>

definition run_iteration ::
  "'w provider \<Rightarrow> nat list list \<Rightarrow> 'w inner_lbfgs \<Rightarrow> error + (bool \<times> 'w inner_lbfgs)" where
  "run_iteration env idx_active st =
     ebind (choose_direction (scalar_product env) idx_active st) (\<lambda>st1.
     ebind (line_search env (search_directions st1) st1)
       (after_line_search env idx_active st1))"

text \<open>
  The test of line 105. The two norms are numpy floats, whose quotient by zero is
  \<open>inf\<close> or \<open>nan\<close> and not an exception; the real quotient stands for it.
\<close>

definition converged :: "'w inner_lbfgs \<Rightarrow> bool" where
  "converged st \<longleftrightarrow>
     gradient_norm st \<le> atol st + rtol st * gradient_norm_initial st
     \<or> relative_norm st * gradient_norm_initial st / first_gradient_norm st \<le> tolerance st / 2"

function run_loop ::
  "'w provider \<Rightarrow> nat list list \<Rightarrow> 'w inner_lbfgs \<Rightarrow> error + 'w inner_lbfgs" where
  "run_loop env idx_active st =
     (if converged st then Inr st
      else (case run_iteration env idx_active st of
              Inl e \<Rightarrow> Inl e
            | Inr (continue, st') \<Rightarrow>
                if continue then run_loop env idx_active st' else Inr st'))"
  by pat_completeness auto
termination
proof (relation "measure (\<lambda>(env, idx, st). nat (maximum_iterations st - iteration st))")
  fix env :: "'w provider" and idx_active st x2 continue st'
  assume "run_iteration env idx_active st = Inr x2" and "(continue, st') = x2" and continue
  then obtain st1 res where "after_line_search env idx_active st1 res = Inr (True, st')"
    and a: "iteration st1 = iteration st \<and> maximum_iterations st1 = maximum_iterations st"
    by (auto simp: run_iteration_def choose_direction_def descent_safeguard_def
          steepest_fallback_def ebind_def Let_def split: sum.splits if_splits)
  then obtain st5 st6 where "count_iteration st6 = Inr (True, st')"
    and "history_update (scalar_product env) st5 = Inr st6"
    and b: "iteration st5 = iteration st1 \<and> maximum_iterations st5 = maximum_iterations st1"
    by (cases res)
       (auto simp: after_line_search_def update_gradient_def ebind_def Let_def
          split: sum.splits if_splits prod.splits)
  then have "iteration st6 = iteration st5 \<and> maximum_iterations st6 = maximum_iterations st5"
    and "iteration st' = iteration st6 + 1 \<and> maximum_iterations st' = maximum_iterations st6
      \<and> iteration st' < maximum_iterations st'"
    by (auto simp: history_update_def push_history_def count_iteration_def ebind_def Let_def
          split: sum.splits if_splits prod.splits)
  with a b show "((env, idx_active, st'), (env, idx_active, st))
      \<in> measure (\<lambda>(env, idx, st). nat (maximum_iterations st - iteration st))"
    by simp
qed simp

declare run_loop.simps [simp del]

text \<open>Lines 86-103.\<close>

definition run_start :: "'w provider \<Rightarrow> nat list list \<Rightarrow> 'w inner_lbfgs \<Rightarrow> error + 'w inner_lbfgs" where
  "run_start env idx_active st =
     (let st1 = st\<lparr>iteration := 0, relative_norm := 1\<rparr> in
      ebind (gradient_solve env (world st1)) (\<lambda>(w, gradients).
      ebind (for_controls set_zero idx_active gradients) (\<lambda>rg.
      let st2 = st1\<lparr>world := w, reduced_gradient := rg\<rparr>;
          st3 = st2\<lparr>gradient_norm :=
                      sqrt (scalar_product env (reduced_gradient st2) (reduced_gradient st2))\<rparr>;
          st4 = st3\<lparr>gradient_norm_initial := gradient_norm st3\<rparr> in
      Inr (if first_iteration st4
           then st4\<lparr>first_gradient_norm := gradient_norm_initial st4, first_iteration := False\<rparr>
           else st4))))"

definition run :: "'w provider \<Rightarrow> nat list list \<Rightarrow> 'w inner_lbfgs \<Rightarrow> error + 'w inner_lbfgs" where
  "run env idx_active st = ebind (run_start env idx_active st) (run_loop env idx_active)"

section \<open>Mesh quality and mesh handler (geometry.py)\<close>

text \<open>
  A mesh is its vertex coordinate array (one row of \<open>gdim\<close> numbers per vertex), its
  cells (the vertex indices of each cell) and its topological dimension. Where numpy
  or C++ doubles would produce \<open>inf\<close> or \<open>nan\<close>, which the reals do not have, the
  model stops with \<open>NonFinite\<close>.
\<close>

record mesh =
  coordinates :: "real list list"
  cells :: "nat list list"
  tdim :: nat
  gdim :: nat

subsection \<open>The compiled quality functions\<close>

type_synonym point = "real \<times> real \<times> real"

text \<open>\<open>Vertex(mesh, i).point()\<close>: a dolfin point has three coordinates, unused ones are 0.\<close>

definition point_of :: "real list \<Rightarrow> point" where
  "point_of xs =
     (case xs of
        [] \<Rightarrow> (0, 0, 0)
      | [x] \<Rightarrow> (x, 0, 0)
      | [x, y] \<Rightarrow> (x, y, 0)
      | x # y # z # _ \<Rightarrow> (x, y, z))"

definition vertex_point :: "mesh \<Rightarrow> nat \<Rightarrow> error + point" where
  "vertex_point m i =
     (if i < length (coordinates m) then Inr (point_of (coordinates m ! i)) else Inl IndexError)"

fun p_sub :: "point \<Rightarrow> point \<Rightarrow> point" where
  "p_sub (a, b, c) (x, y, z) = (a - x, b - y, c - z)"

fun p_dot :: "point \<Rightarrow> point \<Rightarrow> real" where
  "p_dot (a, b, c) (x, y, z) = a * x + b * y + c * z"

fun p_cross :: "point \<Rightarrow> point \<Rightarrow> point" where
  "p_cross (a, b, c) (x, y, z) = (b * z - c * y, c * x - a * z, a * y - b * x)"

definition p_norm :: "point \<Rightarrow> real" where
  "p_norm p = sqrt (p_dot p p)"

text \<open>\<open>e /= e.norm()\<close>; a zero vector gives \<open>nan\<close> components.\<close>

definition normalized :: "point \<Rightarrow> error + point" where
  "normalized p =
     (if p_norm p = 0 then Inl NonFinite
      else (case p of (a, b, c) \<Rightarrow> Inr (a / p_norm p, b / p_norm p, c / p_norm p)))"

definition angles_triangle :: "mesh \<Rightarrow> nat list \<Rightarrow> error + real list" where
  "angles_triangle m c =
     (case c of
        i0 # i1 # i2 # _ \<Rightarrow>
          ebind (vertex_point m i0) (\<lambda>p0.
          ebind (vertex_point m i1) (\<lambda>p1.
          ebind (vertex_point m i2) (\<lambda>p2.
          ebind (normalized (p_sub p1 p0)) (\<lambda>e0.
          ebind (normalized (p_sub p2 p0)) (\<lambda>e1.
          ebind (normalized (p_sub p2 p1)) (\<lambda>e2.
          Inr [arccos (p_dot e0 e1), arccos (p_dot e0 e2), arccos (p_dot e1 e2)]))))))
      | _ \<Rightarrow> Inl IndexError)"

definition dihedral_angles :: "mesh \<Rightarrow> nat list \<Rightarrow> error + real list" where
  "dihedral_angles m c =
     (case c of
        i0 # i1 # i2 # i3 # _ \<Rightarrow>
          ebind (vertex_point m i0) (\<lambda>p0.
          ebind (vertex_point m i1) (\<lambda>p1.
          ebind (vertex_point m i2) (\<lambda>p2.
          ebind (vertex_point m i3) (\<lambda>p3.
          let e0 = p_sub p1 p0; e1 = p_sub p2 p0; e2 = p_sub p3 p0;
              e3 = p_sub p2 p1; e4 = p_sub p3 p1 in
          ebind (normalized (p_cross e0 e1)) (\<lambda>n0.
          ebind (normalized (p_cross e0 e2)) (\<lambda>n1.
          ebind (normalized (p_cross e1 e2)) (\<lambda>n2.
          ebind (normalized (p_cross e3 e4)) (\<lambda>n3.
          Inr [arccos (p_dot n0 n1), arccos (- p_dot n0 n2), arccos (p_dot n1 n2),
               arccos (p_dot n0 n3), arccos (- p_dot n1 n3), arccos (p_dot n2 n3)]))))))))
      | _ \<Rightarrow> Inl IndexError)"

text \<open>The angles of a cell and the optimal angle, by the dimension of the cell.\<close>

definition cell_angles :: "string \<Rightarrow> mesh \<Rightarrow> nat list \<Rightarrow> error + (real list \<times> real)" where
  "cell_angles name m c =
     (if tdim m = 2 then ebind (angles_triangle m c) (\<lambda>angs. Inr (angs, pi / 3))
      else if tdim m = 3 then ebind (dihedral_angles m c) (\<lambda>angs. Inr (angs, arccos (1 / 3)))
      else Inl (Exception (name @ '': Not a valid dimension for the mesh.'')))"

text \<open>\<open>*std::min_element(quals.begin(), quals.end())\<close> and \<open>np.min\<close>.\<close>

fun min_element :: "real list \<Rightarrow> error + real" where
  "min_element [] = Inl ValueError"
| "min_element [x] = Inr x"
| "min_element (x # y # ys) = ebind (min_element (y # ys)) (\<lambda>r. Inr (min x r))"

text \<open>\<open>np.max\<close>.\<close>

fun max_element :: "real list \<Rightarrow> error + real" where
  "max_element [] = Inl ValueError"
| "max_element [x] = Inr x"
| "max_element (x # y # ys) = ebind (max_element (y # ys)) (\<lambda>r. Inr (max x r))"

text \<open>\<open>np.average\<close>; of an empty array it is \<open>nan\<close>.\<close>

definition average :: "real list \<Rightarrow> error + real" where
  "average xs = (if xs = [] then Inl NonFinite else Inr (sum_list xs / real (length xs)))"

definition skewness_angle :: "real \<Rightarrow> real \<Rightarrow> real" where
  "skewness_angle opt_angle a =
     1 - max ((a - opt_angle) / (pi - opt_angle)) ((opt_angle - a) / opt_angle)"

definition maximum_angle_angle :: "real \<Rightarrow> real \<Rightarrow> real" where
  "maximum_angle_angle opt_angle a = 1 - max ((a - opt_angle) / (pi - opt_angle)) 0"

text \<open>The loop over the cells of \<open>skewness\<close> and of \<open>maximum_angle\<close>: the cell function.\<close>

fun cell_function ::
  "string \<Rightarrow> (real \<Rightarrow> real \<Rightarrow> real) \<Rightarrow> mesh \<Rightarrow> nat list list \<Rightarrow> error + real list" where
  "cell_function name q m [] = Inr []"
| "cell_function name q m (c # cs) =
     ebind (cell_angles name m c) (\<lambda>(angs, opt_angle).
     ebind (min_element (map (q opt_angle) angs)) (\<lambda>cf.
     ebind (cell_function name q m cs) (\<lambda>rest. Inr (cf # rest))))"

definition skewness :: "mesh \<Rightarrow> error + real list" where
  "skewness m = cell_function ''skewness'' skewness_angle m (cells m)"

definition maximum_angle :: "mesh \<Rightarrow> error + real list" where
  "maximum_angle m = cell_function ''maximum_angle'' maximum_angle_angle m (cells m)"

subsection \<open>MeshQuality\<close>

definition min_skewness :: "mesh \<Rightarrow> error + real" where
  "min_skewness m = ebind (skewness m) min_element"

definition avg_skewness :: "mesh \<Rightarrow> error + real" where
  "avg_skewness m = ebind (maximum_angle m) average"

definition min_maximum_angle :: "mesh \<Rightarrow> error + real" where
  "min_maximum_angle m = ebind (maximum_angle m) min_element"

definition avg_maximum_angle :: "mesh \<Rightarrow> error + real" where
  "avg_maximum_angle m = ebind (maximum_angle m) average"

text \<open>
  The library calls of geometry.py are parameters: \<open>fenics.MeshQuality.radius_ratios\<close>,
  the projection solve for the condition numbers (the vector \<open>cond\<close>), the projection
  solve of the a priori check (what went wrong, or the converged reason of the Krylov
  solver and the solution \<open>x\<close>, one value of \<open>det(I + grad transformation)\<close> per cell),
  the vertex values of a function, by which \<open>fenics.ALE.move\<close> displaces the vertices,
  and \<open>bbtree.compute_entity_collisions\<close> for the tree built from the mesh.
\<close>

record element =
  family :: string
  degree :: int
  value_shape :: "nat list"

record fem_function =
  ufl_element :: element
  vector :: "real list"

record library =
  radius_ratios :: "mesh \<Rightarrow> real list"
  condition_solve :: "mesh \<Rightarrow> real list"
  prior_solve :: "mesh \<Rightarrow> fem_function \<Rightarrow> error + (int \<times> real list)"
  vertex_values :: "mesh \<Rightarrow> fem_function \<Rightarrow> real list list"
  entity_collisions :: "mesh \<Rightarrow> real list \<Rightarrow> nat list"

definition min_radius_ratios :: "library \<Rightarrow> mesh \<Rightarrow> error + real" where
  "min_radius_ratios lib m = min_element (radius_ratios lib m)"

definition avg_radius_ratios :: "library \<Rightarrow> mesh \<Rightarrow> error + real" where
  "avg_radius_ratios lib m = average (radius_ratios lib m)"

text \<open>\<open>np.sqrt(mesh.geometric_dimension()) / cond.vector()[:]\<close>.\<close>

definition condition_quality :: "library \<Rightarrow> mesh \<Rightarrow> error + real list" where
  "condition_quality lib m =
     (if 0 \<in> set (condition_solve lib m) then Inl NonFinite
      else Inr (map (\<lambda>c. sqrt (real (gdim m)) / c) (condition_solve lib m)))"

definition min_condition_number :: "library \<Rightarrow> mesh \<Rightarrow> error + real" where
  "min_condition_number lib m = ebind (condition_quality lib m) min_element"

definition avg_condition_number :: "library \<Rightarrow> mesh \<Rightarrow> error + real" where
  "avg_condition_number lib m = ebind (condition_quality lib m) average"

subsection \<open>MeshHandler\<close>

text \<open>\<open>volume_change\<close> is a float read from the configuration, \<open>inf\<close> by default.\<close>

datatype bound = Finite real | Infinite

text \<open>
  The attributes of the handler that the mesh operations read or write.
  \<open>old_coordinates\<close> does not exist before the first move.
\<close>

record mesh_handler =
  mesh :: mesh
  old_coordinates :: "real list list option"
  volume_change :: bound
  mesh_quality_measure :: string
  mesh_quality_type :: string
  current_mesh_quality :: real

definition compute_mesh_quality :: "library \<Rightarrow> mesh_handler \<Rightarrow> error + mesh_handler" where
  "compute_mesh_quality lib h =
     (let store = (\<lambda>q. ebind q (\<lambda>v. Inr (h\<lparr>current_mesh_quality := v\<rparr>))) in
      if mesh_quality_type h \<in> set [''min'', ''minimum''] then
        (if mesh_quality_measure h = ''skewness'' then store (min_skewness (mesh h))
         else if mesh_quality_measure h = ''maximum_angle'' then
           store (min_maximum_angle (mesh h))
         else if mesh_quality_measure h = ''radius_ratios'' then
           store (min_radius_ratios lib (mesh h))
         else if mesh_quality_measure h = ''condition_number'' then
           store (min_condition_number lib (mesh h))
         else Inr h)
      else
        (if mesh_quality_measure h = ''skewness'' then store (avg_skewness (mesh h))
         else if mesh_quality_measure h = ''maximum_angle'' then
           store (avg_maximum_angle (mesh h))
         else if mesh_quality_measure h = ''radius_ratios'' then
           store (avg_radius_ratios lib (mesh h))
         else if mesh_quality_measure h = ''condition_number'' then
           store (avg_condition_number lib (mesh h))
         else Inr h))"

text \<open>
  \<open>__test_a_priori\<close>, lines 597-615. The message of the exception ends with the
  converged reason in the source.
\<close>

definition test_a_priori :: "library \<Rightarrow> mesh_handler \<Rightarrow> fem_function \<Rightarrow> error + bool" where
  "test_a_priori lib h transformation =
     (case volume_change h of
        Finite vc \<Rightarrow>
          ebind (prior_solve lib (mesh h) transformation) (\<lambda>(reason, x).
          if reason < 0 then Inl (Exception ''Krylov solver did not converge.'')
          else
            ebind (min_element x) (\<lambda>min_det.
            ebind (max_element x) (\<lambda>max_det.
            ebind (py_div 1 vc) (\<lambda>lower.
            Inr (min_det \<ge> lower \<and> max_det \<le> vc)))))
      | Infinite \<Rightarrow> Inr True)"

text \<open>
  \<open>revert_transformation\<close>: \<open>self.mesh.coordinates()[:, :] = self.old_coordinates\<close>. The
  snapshot is a copy of the coordinate array of this mesh; an array of another shape,
  which numpy would broadcast or refuse, is refused.
\<close>

definition revert_transformation :: "mesh_handler \<Rightarrow> (error + unit) \<times> mesh_handler" where
  "revert_transformation h =
     (case old_coordinates h of
        None \<Rightarrow> (Inl AttributeError, h)
      | Some old \<Rightarrow>
          if map length old = map length (coordinates (mesh h))
          then (Inr (), h\<lparr>mesh := (mesh h)\<lparr>coordinates := old\<rparr>\<rparr>)
          else (Inl ValueError, h))"

text \<open>\<open>M = cells[cells_idx]\<close> and \<open>M.flatten().tolist().count(i)\<close>.\<close>

definition gather :: "'a list \<Rightarrow> nat list \<Rightarrow> error + 'a list" where
  "gather xs idx =
     (if \<forall>k \<in> set idx. k < length xs then Inr (map (\<lambda>k. xs ! k) idx) else Inl IndexError)"

text \<open>
  The loop of lines 637-646 over the vertices \<open>i\<close>, \<open>i + 1\<close>, ...: is there a vertex
  with more colliding cells than cells it belongs to?
\<close>

fun self_intersections ::
  "library \<Rightarrow> mesh \<Rightarrow> nat \<Rightarrow> real list list \<Rightarrow> error + bool" where
  "self_intersections lib m i [] = Inr False"
| "self_intersections lib m i (x # xs) =
     (let cells_idx = entity_collisions lib m x in
      ebind (gather (cells m) cells_idx) (\<lambda>M.
      if length cells_idx > count_list (concat M) i then Inr True
      else self_intersections lib m (Suc i) xs))"

definition test_a_posteriori :: "library \<Rightarrow> mesh_handler \<Rightarrow> (error + bool) \<times> mesh_handler" where
  "test_a_posteriori lib h =
     (case self_intersections lib (mesh h) 0 (coordinates (mesh h)) of
        Inl e \<Rightarrow> (Inl e, h)
      | Inr True \<Rightarrow>
          (case revert_transformation h of
             (Inl e, h') \<Rightarrow> (Inl e, h')
           | (Inr _, h') \<Rightarrow> (Inr False, h'))
      | Inr False \<Rightarrow>
          (case compute_mesh_quality lib h of
             Inl e \<Rightarrow> (Inl e, h)
           | Inr h' \<Rightarrow> (Inr True, h')))"

text \<open>
  Modelled from the spec: \<open>fenics.ALE.move\<close> is a library call; the spec has
  "coordinates += transformation field", here the field's values at the vertices. A
  field that does not give one displacement of \<open>gdim\<close> numbers per vertex is refused.
\<close>

definition ale_move :: "library \<Rightarrow> mesh \<Rightarrow> fem_function \<Rightarrow> error + mesh" where
  "ale_move lib m transformation =
     (let displacement = vertex_values lib m transformation in
      if map length displacement = map length (coordinates m)
      then Inr (m\<lparr>coordinates := map2 (map2 (+)) (coordinates m) displacement\<rparr>)
      else Inl (Exception ''Unable to move mesh.''))"

text \<open>\<open>move_mesh\<close>, lines 441-451: the result or the exception, and the handler after it.\<close>

definition move_mesh ::
  "library \<Rightarrow> fem_function \<Rightarrow> mesh_handler \<Rightarrow> (error + bool) \<times> mesh_handler" where
  "move_mesh lib transformation h =
     (if \<not> (family (ufl_element transformation) = ''Lagrange''
             \<and> degree (ufl_element transformation) = 1)
      then (Inl AssertionError, h)
      else
        (case test_a_priori lib h transformation of
           Inl e \<Rightarrow> (Inl e, h)
         | Inr False \<Rightarrow> (Inr False, h)
         | Inr True \<Rightarrow>
             (let h1 = h\<lparr>old_coordinates := Some (coordinates (mesh h))\<rparr> in
              case ale_move lib (mesh h1) transformation of
                Inl e \<Rightarrow> (Inl e, h1)
              | Inr m' \<Rightarrow> test_a_posteriori lib (h1\<lparr>mesh := m'\<rparr>))))"

subsection \<open>Notions used in the statements\<close>

text \<open>
  The negated gradient with its active entries put to zero, written without the
  solver's loops.
\<close>

definition projected_negative :: "cvec \<Rightarrow> nat list list \<Rightarrow> cvec" where
  "projected_negative grad idx_active =
     map2 (\<lambda>g a. map (\<lambda>k. if k \<in> set a then 0 else - (g ! k)) [0..<length g]) grad idx_active"

text \<open>
  Inputs of \<open>compute_search_direction\<close> as the solver builds them: one index array per
  control with indices inside the field, history entries of the shape of the gradient
  (they are copies of functions on the control spaces), no fewer \<open>y\<close> and \<open>rho\<close> entries
  than \<open>s\<close> entries, and a non-zero denominator of the scaling factor where it is used.
\<close>

definition well_shaped ::
  "(cvec \<Rightarrow> cvec \<Rightarrow> real) \<Rightarrow> 'w inner_lbfgs \<Rightarrow> cvec \<Rightarrow> nat list list \<Rightarrow> bool" where
  "well_shaped sp st grad idx_active \<longleftrightarrow>
     length grad \<le> length idx_active
     \<and> (\<forall>j < length grad. \<forall>i \<in> set (idx_active ! j). i < length (grad ! j))
     \<and> length (history_s st) \<le> length (history_y st)
     \<and> length (history_s st) \<le> length (history_rho st)
     \<and> (\<forall>s \<in> set (history_s st). map length s = map length grad)
     \<and> (\<forall>y \<in> set (history_y st). map length y = map length grad)
     \<and> (use_bfgs_scaling st \<and> iteration st > 0 \<longrightarrow>
          (\<forall>y0 \<in> set (take 1 (history_y st)). sp y0 y0 \<noteq> 0))"

text \<open>
  The invariant of the three deques: equal lengths, at most \<open>memory_vectors\<close> entries.
\<close>

definition history_bounded :: "'w inner_lbfgs \<Rightarrow> bool" where
  "history_bounded st \<longleftrightarrow>
     length (history_y st) = length (history_s st)
     \<and> length (history_rho st) = length (history_s st)
     \<and> int (length (history_s st)) \<le> memory_vectors st"

subsection \<open>Concrete solver states\<close>

text \<open>
  The world of the concrete runs is the control itself, for the cost functional
  \<open>|u|\<^sup>2 / 2\<close>: its gradient is \<open>u\<close>, and the line search takes the full step.
\<close>

definition quadratic_provider :: "cvec provider" where
  "quadratic_provider =
     \<lparr> scalar_product = dot,
       gradient_solve = (\<lambda>u. Inr (u, u)),
       line_search = (\<lambda>d st. Inr (map2 (map2 (+)) (world st) d, 1, False)) \<rparr>"

text \<open>
  One control field of dimension 2, memory for five pairs, the single history entry
  \<open>s = [1, 0]\<close>, \<open>y = [1, 0]\<close>, \<open>rho = 1\<close>, no scaling.
\<close>

definition single_entry_state :: "cvec inner_lbfgs" where
  "single_entry_state =
     \<lparr> maximum_iterations = 10, tolerance = 0, atol = 0, rtol = 0, soft_exit = True,
       control_dim = 1, memory_vectors = 5, use_bfgs_scaling = False,
       reduced_gradient = [[1, 0]], first_gradient_norm = 1, first_iteration = False,
       history_s = [[[1, 0]]], history_y = [[[1, 0]]], history_rho = [1],
       gradients_prev = [[1, 0]], search_directions = [[0, 0]], iteration = 1,
       relative_norm = 1, gradient_norm = 1, gradient_norm_initial = 1,
       directional_derivative = 0, stepsize = 1, line_search_broken = False,
       world = [[1, 0]] \<rparr>"

text \<open>The same solver with the history entry \<open>s = y = [1, 1]\<close>, \<open>rho = 1/2\<close>.\<close>

definition diagonal_entry_state :: "cvec inner_lbfgs" where
  "diagonal_entry_state =
     single_entry_state\<lparr>history_s := [[[1, 1]]], history_y := [[[1, 1]]],
       history_rho := [1 / 2]\<rparr>"

text \<open>A solver without memory (\<open>memory_vectors = 0\<close>) on one control field of dimension 5.\<close>

definition zero_history_state :: "cvec inner_lbfgs" where
  "zero_history_state =
     single_entry_state\<lparr>memory_vectors := 0, history_s := [], history_y := [],
       history_rho := [], reduced_gradient := [[1, 1, 1, 1, 1]]\<rparr>"

text \<open>
  After a step \<open>s = [-1, 0]\<close> the reduced gradient is what it was before (\<open>y = 0\<close>),
  as for a cost functional that is linear along the step.
\<close>

definition zero_curvature_state :: "cvec inner_lbfgs" where
  "zero_curvature_state =
     single_entry_state\<lparr>reduced_gradient := [[1, 0]], gradients_prev := [[1, 0]],
       search_directions := [[- 1, 0]], stepsize := 1\<rparr>"

text \<open>A history entry with negative \<open>rho\<close>, which turns the direction uphill.\<close>

definition uphill_state :: "cvec inner_lbfgs" where
  "uphill_state =
     single_entry_state\<lparr>history_s := [[[1, 0]]], history_y := [[[- 1, 0]]],
       history_rho := [- 1]\<rparr>"

text \<open>
  Memory for one pair only, holding one entry; the next step is \<open>s = [-1, 0]\<close> with
  \<open>y = [-1, 0]\<close>.
\<close>

definition truncating_state :: "cvec inner_lbfgs" where
  "truncating_state =
     single_entry_state\<lparr>memory_vectors := 1, reduced_gradient := [[0, 0]],
       gradients_prev := [[1, 0]], search_directions := [[- 1, 0]], stepsize := 1\<rparr>"

subsection \<open>Concrete meshes and handlers\<close>

text \<open>
  One triangle with the vertices \<open>(\<surd>3, 0)\<close>, \<open>(0, 0)\<close>, \<open>(0, 1)\<close>: its angles are
  \<open>\<pi>/6\<close>, \<open>\<pi>/2\<close> and \<open>\<pi>/3\<close>.
\<close>

definition right_triangle :: mesh where
  "right_triangle =
     \<lparr> coordinates = [[sqrt 3, 0], [0, 0], [0, 1]], cells = [[0, 1, 2]], tdim = 2, gdim = 2 \<rparr>"

text \<open>
  A library whose a priori solve converges with the determinants 1 and 3 on two cells,
  which moves the vertices by the degrees of freedom taken in pairs, and whose tree
  reports no collision.
\<close>

fun pairs :: "real list \<Rightarrow> real list list" where
  "pairs (x # y # xs) = [x, y] # pairs xs"
| "pairs xs = []"

definition test_library :: library where
  "test_library =
     \<lparr> radius_ratios = (\<lambda>m. [1]),
       condition_solve = (\<lambda>m. [1]),
       prior_solve = (\<lambda>m t. Inr (2, [1, 3])),
       vertex_values = (\<lambda>m t. pairs (vector t)),
       entity_collisions = (\<lambda>m x. []) \<rparr>"

definition test_handler :: mesh_handler where
  "test_handler =
     \<lparr> mesh = right_triangle, old_coordinates = None, volume_change = Finite 2,
       mesh_quality_measure = ''radius_ratios'', mesh_quality_type = ''min'',
       current_mesh_quality = 1 \<rparr>"

text \<open>A vector CG1 field, a scalar CG1 field and a vector CG2 field.\<close>

definition vector_cg1 :: fem_function where
  "vector_cg1 =
     \<lparr> ufl_element = \<lparr> family = ''Lagrange'', degree = 1, value_shape = [2] \<rparr>,
       vector = [1, 0, 1, 0, 1, 0] \<rparr>"

definition scalar_cg1 :: fem_function where
  "scalar_cg1 =
     \<lparr> ufl_element = \<lparr> family = ''Lagrange'', degree = 1, value_shape = [] \<rparr>,
       vector = [1, 0, 1] \<rparr>"

definition vector_cg2 :: fem_function where
  "vector_cg2 =
     \<lparr> ufl_element = \<lparr> family = ''Lagrange'', degree = 2, value_shape = [2] \<rparr>,
       vector = [1, 0, 1, 0, 1, 0, 1, 0, 1, 0, 1, 0] \<rparr>"

text \<open>What the claim calls a vector field of Lagrange family and degree 1.\<close>

definition is_vector_cg1 :: "fem_function \<Rightarrow> bool" where
  "is_vector_cg1 t \<longleftrightarrow>
     family (ufl_element t) = ''Lagrange'' \<and> degree (ufl_element t) = 1
     \<and> length (value_shape (ufl_element t)) = 1"

text \<open>The handler of the triangle with the measure \<open>skewness\<close> and the type \<open>avg\<close>.\<close>

definition skewness_handler :: mesh_handler where
  "skewness_handler =
     \<lparr> mesh = right_triangle, old_coordinates = None, volume_change = Infinite,
       mesh_quality_measure = ''skewness'', mesh_quality_type = ''avg'',
       current_mesh_quality = 1 \<rparr>"

section \<open>Properties of the search direction\<close>

subsection \<open>Index assignment and the loop over the controls\<close>

lemma fold_update_length: "length (fold (\<lambda>i w. w[i := (0::real)]) idx v) = length v"
  by (induction idx arbitrary: v) auto

lemma fold_update_nth:
  "k < length v \<Longrightarrow>
     fold (\<lambda>i w. w[i := (0::real)]) idx v ! k = (if k \<in> set idx then 0 else v ! k)"
  by (induction idx arbitrary: v) (auto simp: fold_update_length nth_list_update)

lemma set_zero_InrD:
  assumes "set_zero idx v = Inr w"
  shows "length w = length v" and "\<forall>i \<in> set idx. i < length v"
    and "\<And>k. k < length v \<Longrightarrow> w ! k = (if k \<in> set idx then 0 else v ! k)"
  using assms by (auto simp: set_zero_def fold_update_length fold_update_nth split: if_splits)

lemma set_zero_eq:
  "set_zero idx v =
     (if \<forall>i \<in> set idx. i < length v
      then Inr (map (\<lambda>k. if k \<in> set idx then 0 else v ! k) [0..<length v])
      else Inl IndexError)"
  by (auto simp: set_zero_def fold_update_length fold_update_nth intro!: nth_equalityI)

lemma set_zero_total:
  "\<forall>i \<in> set a. i < length v \<Longrightarrow> \<exists>w. set_zero a v = Inr w \<and> length w = length v"
  by (simp add: set_zero_def fold_update_length)

lemma for_controls_InrD:
  "for_controls f a d = Inr d' \<Longrightarrow>
     length d' = length d \<and> length d \<le> length a
     \<and> (\<forall>j < length d. f (a ! j) (d ! j) = Inr (d' ! j))"
proof (induction f a d arbitrary: d' rule: for_controls.induct)
  case (3 f x a d ds)
  then show ?case
    by (auto simp: ebind_def nth_Cons split: sum.splits nat.splits)
qed auto

lemma for_controls_InrI:
  "length d \<le> length a \<Longrightarrow> \<forall>j < length d. \<exists>r. f (a ! j) (d ! j) = Inr r \<Longrightarrow>
     \<exists>d'. for_controls f a d = Inr d'"
proof (induction f a d rule: for_controls.induct)
  case (3 f x a d ds)
  from 3(3) have h0: "\<exists>r. f x d = Inr r" by fastforce
  from 3(3) have hs: "\<forall>j<length ds. \<exists>r. f (a ! j) (ds ! j) = Inr r" by fastforce
  from h0 obtain r where r: "f x d = Inr r" by blast
  from 3(1) 3(2) hs obtain ds' where "for_controls f a ds = Inr ds'" by auto
  with r show ?case by (simp add: ebind_def)
qed auto

lemma for_controls_same_shape_total:
  assumes "map length a = map length d"
    and "\<And>x v. length x = length v \<Longrightarrow> \<exists>w. f x v = Inr w \<and> length w = length v"
  shows "\<exists>d'. for_controls f a d = Inr d' \<and> map length d' = map length d"
proof -
  from assms(1) have len: "length a = length d" by (metis length_map)
  have "\<forall>j < length d. \<exists>r. f (a ! j) (d ! j) = Inr r"
  proof (intro allI impI)
    fix j assume j: "j < length d"
    with assms(1) len have "length (a ! j) = length (d ! j)" by (metis nth_map)
    with assms(2) show "\<exists>r. f (a ! j) (d ! j) = Inr r" by blast
  qed
  with len for_controls_InrI[of d a f] obtain d' where d': "for_controls f a d = Inr d'" by auto
  have "map length d' = map length d"
    using d' assms(2) for_controls_InrD[OF d'] len
    by (intro nth_equalityI) (auto, metis assms(1) nth_map sum.inject(2))
  with d' show ?thesis by blast
qed

lemma for_controls_active_total:
  assumes "length d \<le> length idx"
    and "\<forall>j < length d. \<forall>i \<in> set (idx ! j). i < length (d ! j)"
    and "\<And>a v. \<forall>i \<in> set a. i < length v \<Longrightarrow> \<exists>w. f a v = Inr w \<and> length w = length v"
  shows "\<exists>d'. for_controls f idx d = Inr d' \<and> map length d' = map length d"
proof -
  have "\<forall>j < length d. \<exists>r. f (idx ! j) (d ! j) = Inr r"
    using assms(2,3) by blast
  with assms(1) for_controls_InrI[of d idx f] obtain d' where d': "for_controls f idx d = Inr d'"
    by auto
  have "map length d' = map length d"
  proof (rule nth_equalityI)
    show "length (map length d') = length (map length d)"
      using for_controls_InrD[OF d'] by simp
  next
    fix j assume "j < length (map length d')"
    with for_controls_InrD[OF d'] have j: "j < length d" "f (idx ! j) (d ! j) = Inr (d' ! j)"
      by auto
    from assms(2,3) j(1) obtain w where "f (idx ! j) (d ! j) = Inr w" "length w = length (d ! j)"
      by blast
    with j for_controls_InrD[OF d'] show "map length d' ! j = map length d ! j" by simp
  qed
  with d' show ?thesis by blast
qed

lemma for_controls_set_zero_eq:
  "length d \<le> length idx \<Longrightarrow> \<forall>j < length d. \<forall>i \<in> set (idx ! j). i < length (d ! j) \<Longrightarrow>
   for_controls set_zero idx d =
     Inr (map2 (\<lambda>g a. map (\<lambda>k. if k \<in> set a then 0 else g ! k) [0..<length g]) d idx)"
proof (induction set_zero idx d rule: for_controls.induct)
  case (3 x a d ds)
  from 3(3) have h0: "\<forall>i \<in> set x. i < length d" by fastforce
  from 3(3) have hs: "\<forall>j<length ds. \<forall>i \<in> set (a ! j). i < length (ds ! j)" by fastforce
  from 3(1) 3(2) hs h0 show ?case by (simp add: ebind_def set_zero_eq)
qed auto

lemma zeroed_then_mapped:
  assumes "for_controls (\<lambda>a d. ebind (set_zero a d) (\<lambda>d'. Inr (map g d'))) idx d0 = Inr d"
    and "g 0 = 0" and "j < length d" and "i \<in> set (idx ! j)"
  shows "i < length (d ! j) \<and> d ! j ! i = (0::real)"
proof -
  from for_controls_InrD[OF assms(1)] assms(3)
  have "ebind (set_zero (idx ! j) (d0 ! j)) (\<lambda>d'. Inr (map g d')) = Inr (d ! j)" by auto
  then obtain w where w: "set_zero (idx ! j) (d0 ! j) = Inr w" and dj: "d ! j = map g w"
    by (auto simp: ebind_def split: sum.splits)
  from set_zero_InrD[OF w] assms(4) have "i < length w" "w ! i = 0" by auto
  with dj assms(2) show ?thesis by simp
qed

subsection \<open>The two passes keep the shape of the direction\<close>

lemma forward_pass_total:
  "length hs \<le> length hy \<Longrightarrow> length hs \<le> length hr
   \<Longrightarrow> \<forall>y \<in> set hy. map length y = map length d
   \<Longrightarrow> \<exists>d' alphas. forward_pass sp hs hy hr d = Inr (d', alphas)
         \<and> map length d' = map length d \<and> length alphas = length hs"
proof (induction sp hs hy hr d rule: forward_pass.induct)
  case (2 sp s hs y hy r hr d)
  let ?alpha = "r * sp s d"
  have "\<exists>d'. for_controls (sub_scaled ?alpha) y d = Inr d' \<and> map length d' = map length d"
    using 2(4) by (intro for_controls_same_shape_total) (auto simp: sub_scaled_def)
  then obtain d' where d': "for_controls (sub_scaled ?alpha) y d = Inr d'"
    and sh: "map length d' = map length d" by blast
  from 2(1)[OF refl, of d'] 2(2,3,4) sh obtain d'' alphas where
    "forward_pass sp hs hy hr d' = Inr (d'', alphas)" "map length d'' = map length d'"
    "length alphas = length hs" by auto
  with d' sh show ?case by (simp add: ebind_def)
qed auto

lemma backward_pass_total:
  "length hs \<le> length hy \<Longrightarrow> length hs \<le> length hr \<Longrightarrow> length hs \<le> length ha
   \<Longrightarrow> \<forall>s \<in> set hs. map length s = map length d
   \<Longrightarrow> \<exists>d'. backward_pass sp hs hy hr ha d = Inr d' \<and> map length d' = map length d"
proof (induction sp hs hy hr ha d rule: backward_pass.induct)
  case (2 sp s hs y hy r hr a ha d)
  let ?c = "a - r * sp y d"
  have "\<exists>d'. for_controls (add_scaled ?c) s d = Inr d' \<and> map length d' = map length d"
    using 2(5) by (intro for_controls_same_shape_total) (auto simp: add_scaled_def)
  then obtain d' where d': "for_controls (add_scaled ?c) s d = Inr d'"
    and sh: "map length d' = map length d" by blast
  from 2(1)[OF refl, of d'] 2(2,3,4,5) sh obtain d'' where
    "backward_pass sp hs hy hr ha d' = Inr d''" "map length d'' = map length d'" by auto
  with d' sh show ?case by (simp add: ebind_def)
qed auto

lemma forward_pass_length:
  "forward_pass sp hs hy hr d = Inr (d', alphas) \<Longrightarrow> length d' = length d"
proof (induction sp hs hy hr d arbitrary: d' alphas rule: forward_pass.induct)
  case (2 sp s hs y hy r hr d)
  then show ?case
    by (auto simp: ebind_def Let_def split: sum.splits prod.splits dest!: for_controls_InrD)
qed auto

lemma backward_pass_length:
  "backward_pass sp hs hy hr ha d = Inr d' \<Longrightarrow> length d' = length d"
proof (induction sp hs hy hr ha d arbitrary: d' rule: backward_pass.induct)
  case (2 sp s hs y hy r hr a ha d)
  then show ?case
    by (auto simp: ebind_def Let_def split: sum.splits dest!: for_controls_InrD)
qed auto

lemma compute_search_direction_length:
  assumes "compute_search_direction sp st grad idx = Inr d"
  shows "length d = length grad"
proof (cases "memory_vectors st > 0 \<and> length (history_s st) > 0")
  case True
  with assms obtain d0 d1 alphas d2 d3 f where
    a: "for_controls set_zero idx grad = Inr d0"
    and b: "forward_pass sp (history_s st) (history_y st) (history_rho st) d0 = Inr (d1, alphas)"
    and c: "for_controls (\<lambda>a d. set_zero a (map (\<lambda>v. v * f) d)) idx d1 = Inr d2"
    and e: "backward_pass sp (rev (history_s st)) (rev (history_y st)) (rev (history_rho st))
              (rev alphas) d2 = Inr d3"
    and g: "for_controls (\<lambda>a d. ebind (set_zero a d) (\<lambda>d'. Inr (map (\<lambda>v. v * (- 1)) d')))
              idx d3 = Inr d"
    by (auto simp: compute_search_direction_def two_loop_def ebind_def
        split: sum.splits prod.splits)
  from for_controls_InrD[OF a] forward_pass_length[OF b] for_controls_InrD[OF c]
    backward_pass_length[OF e] for_controls_InrD[OF g]
  show ?thesis by simp
next
  case False
  with assms have "for_controls set_zero idx (map (map uminus) grad) = Inr d"
    by (auto simp: compute_search_direction_def)
  from for_controls_InrD[OF this] show ?thesis by simp
qed

text \<open>
  On well-shaped inputs \<open>compute_search_direction\<close> raises nothing and returns a
  direction of the shape of the gradient, in either branch.
\<close>

lemma compute_search_direction_total:
  assumes "well_shaped sp st grad idx"
  shows "\<exists>d. compute_search_direction sp st grad idx = Inr d \<and> map length d = map length grad"
proof (cases "memory_vectors st > 0 \<and> length (history_s st) > 0")
  case False
  have "\<exists>d. for_controls set_zero idx (map (map uminus) grad) = Inr d
          \<and> map length d = map length (map (map uminus) grad)"
    using assms by (intro for_controls_active_total set_zero_total) (auto simp: well_shaped_def)
  moreover have "map length (map (map uminus) grad) = map length grad" by simp
  ultimately show ?thesis using False by (auto simp: compute_search_direction_def)
next
  case True
  let ?hs = "history_s st" and ?hy = "history_y st" and ?hr = "history_rho st"
  from assms have len: "length grad \<le> length idx"
    and act: "\<forall>j < length grad. \<forall>i \<in> set (idx ! j). i < length (grad ! j)"
    and lhy: "length ?hs \<le> length ?hy" and lhr: "length ?hs \<le> length ?hr"
    and shs: "\<forall>s \<in> set ?hs. map length s = map length grad"
    and shy: "\<forall>y \<in> set ?hy. map length y = map length grad"
    and sc: "use_bfgs_scaling st \<and> iteration st > 0
               \<longrightarrow> (\<forall>y0 \<in> set (take 1 ?hy). sp y0 y0 \<noteq> 0)"
    by (auto simp: well_shaped_def)
  have act': "length d \<le> length idx \<and> (\<forall>j < length d. \<forall>i \<in> set (idx ! j). i < length (d ! j))"
    if "map length d = map length grad" for d :: cvec
  proof -
    from that have l: "length d = length grad" by (metis length_map)
    moreover have "length (d ! j) = length (grad ! j)" if "j < length d" for j
      using that l \<open>map length d = map length grad\<close> by (metis nth_map)
    ultimately show ?thesis using len act by auto
  qed
  obtain d0 where d0: "for_controls set_zero idx grad = Inr d0" "map length d0 = map length grad"
    using for_controls_active_total[OF len act, of set_zero] set_zero_total by blast
  obtain d1 alphas where d1: "forward_pass sp ?hs ?hy ?hr d0 = Inr (d1, alphas)"
    "map length d1 = map length grad" "length alphas = length ?hs"
    using forward_pass_total[OF lhy lhr, of d0 sp] shy d0(2) by auto
  obtain factor where
    fac: "scaling_factor sp (use_bfgs_scaling st) (iteration st) ?hs ?hy = Inr factor"
  proof (cases "use_bfgs_scaling st \<and> iteration st > 0")
    case False
    then show ?thesis using that by (auto simp: scaling_factor_def)
  next
    case scal: True
    from True lhy obtain y0 hy' s0 hs' where "?hy = y0 # hy'" "?hs = s0 # hs'"
      by (cases ?hy; cases ?hs) auto
    with sc scal show ?thesis using that by (auto simp: scaling_factor_def py_div_def)
  qed
  obtain d2 where d2: "for_controls (\<lambda>a d. set_zero a (map (\<lambda>v. v * factor) d)) idx d1 = Inr d2"
    "map length d2 = map length grad"
  proof -
    have "\<exists>d'. for_controls (\<lambda>a d. set_zero a (map (\<lambda>v. v * factor) d)) idx d1 = Inr d'
            \<and> map length d' = map length d1"
      using act'[OF d1(2)]
      by (intro for_controls_active_total) (auto simp: set_zero_def fold_update_length)
    with d1(2) that show ?thesis by auto
  qed
  obtain d3 where d3: "backward_pass sp (rev ?hs) (rev ?hy) (rev ?hr) (rev alphas) d2 = Inr d3"
    "map length d3 = map length grad"
    using backward_pass_total[of "rev ?hs" "rev ?hy" "rev ?hr" "rev alphas" d2 sp]
      lhy lhr d1(3) shs d2(2) by auto
  obtain d where
    d: "for_controls (\<lambda>a d. ebind (set_zero a d) (\<lambda>d'. Inr (map (\<lambda>v. v * (- 1)) d')))
          idx d3 = Inr d" "map length d = map length grad"
  proof -
    have "\<exists>d'. for_controls (\<lambda>a d. ebind (set_zero a d) (\<lambda>d'. Inr (map (\<lambda>v. v * (- 1)) d')))
                        idx d3 = Inr d' \<and> map length d' = map length d3"
      using act'[OF d3(2)]
      by (intro for_controls_active_total) (auto simp: set_zero_def fold_update_length ebind_def)
    with d3(2) that show ?thesis by auto
  qed
  from True d0 d1 fac d2 d3 d show ?thesis
    by (simp add: compute_search_direction_def two_loop_def ebind_def)
qed

text \<open>
  Lines 71-73 zero and negate field by field; taken over all controls this is the
  negation of \<open>before_negation\<close>.
\<close>

lemma for_controls_then_map:
  "for_controls (\<lambda>a d. ebind (f a d) (\<lambda>d'. Inr (g d'))) idx d
     = ebind (for_controls f idx d) (\<lambda>d'. Inr (map g d'))"
  by (induction f idx d rule: for_controls.induct) (auto simp: ebind_def split: sum.splits)

lemma compute_search_direction_negates:
  assumes "memory_vectors st > 0" and "history_s st \<noteq> []"
  shows "compute_search_direction sp st grad idx
     = ebind (before_negation sp st grad idx) (\<lambda>d. Inr (map (map (\<lambda>v. v * (- 1))) d))"
proof (cases "two_loop sp st grad idx")
  case (Inl e)
  with assms show ?thesis
    by (simp add: compute_search_direction_def before_negation_def ebind_def)
next
  case (Inr x)
  with assms for_controls_then_map[of set_zero "map (\<lambda>v. v * (- 1))" idx x] show ?thesis
    by (simp add: compute_search_direction_def before_negation_def ebind_def)
qed

lemmas lbfgs_eval = two_loop_def before_negation_def compute_search_direction_def ebind_def
  set_zero_def sub_scaled_def add_scaled_def scaling_factor_def py_div_def dot_def

subsection \<open>The claims on compute\_search\_direction\<close>

text \<open>
  C1 (amended). With the single history entry \<open>s = [1, 0]\<close>, \<open>y = [1, 0]\<close>, \<open>rho = 1\<close>,
  scaling disabled, reduced gradient \<open>[1, 0]\<close> and an empty active set, the first pass
  leaves \<open>[0, 0]\<close> with \<open>alpha = 1\<close>, the second pass adds \<open>s * (alpha - beta) = [1, 0]\<close>,
  so the direction immediately before the negation is \<open>[1, 0]\<close> and the direction
  returned is \<open>[-1, 0]\<close>.
\<close>

theorem single_entry_direction:
  assumes "history_s st = [[[1, 0]]]" and "history_y st = [[[1, 0]]]" and "history_rho st = [1]"
    and "\<not> use_bfgs_scaling st" and "memory_vectors st > 0"
  shows "forward_pass dot (history_s st) (history_y st) (history_rho st) [[1, 0]]
           = Inr ([[0, 0]], [1])
       \<and> before_negation dot st [[1, 0]] [[]] = Inr [[1, 0]]
       \<and> compute_search_direction dot st [[1, 0]] [[]] = Inr [[- 1, 0]]"
  using assms by (simp add: lbfgs_eval)

theorem single_entry_direction_witness:
  "forward_pass dot (history_s single_entry_state) (history_y single_entry_state)
       (history_rho single_entry_state) [[1, 0]] = Inr ([[0, 0]], [1])
   \<and> before_negation dot single_entry_state [[1, 0]] [[]] = Inr [[1, 0]]
   \<and> compute_search_direction dot single_entry_state [[1, 0]] [[]] = Inr [[- 1, 0]]"
  using single_entry_direction[of single_entry_state] by (simp add: single_entry_state_def)

text \<open>
  C1 as stated fails: in that scenario the direction before the negation is not
  \<open>[0, 0]\<close>.
\<close>

theorem single_entry_direction_not_zero:
  "before_negation dot single_entry_state [[1, 0]] [[]] \<noteq> Inr [[0, 0]]"
  by (simp add: single_entry_state_def lbfgs_eval)

text \<open>
  C3. Whatever the gradient, the active index arrays and the history, in every vector
  that \<open>compute_search_direction\<close> returns each entry at an active index is \<open>0\<close>.
\<close>

theorem active_entries_zero:
  assumes "compute_search_direction sp st grad idx_active = Inr d"
    and "j < length d" and "i \<in> set (idx_active ! j)"
  shows "i < length (d ! j) \<and> d ! j ! i = 0"
proof (cases "memory_vectors st > 0 \<and> length (history_s st) > 0")
  case True
  with assms(1) obtain d0 where
    "for_controls (\<lambda>a d. ebind (set_zero a d) (\<lambda>d'. Inr (map (\<lambda>v. v * (- 1)) d')))
       idx_active d0 = Inr d"
    by (auto simp: compute_search_direction_def ebind_def split: sum.splits)
  from zeroed_then_mapped[OF this _ assms(2,3)] show ?thesis by simp
next
  case False
  with assms(1) have "for_controls set_zero idx_active (map (map uminus) grad) = Inr d"
    by (auto simp: compute_search_direction_def)
  from for_controls_InrD[OF this] assms(2)
  have "set_zero (idx_active ! j) (map (map uminus) grad ! j) = Inr (d ! j)" by auto
  from set_zero_InrD[OF this] assms(3) show ?thesis by auto
qed

theorem active_entries_zero_witness:
  "compute_search_direction dot diagonal_entry_state [[1, 2]] [[0]] = Inr [[0, - (3 / 2)]]
   \<and> (0::nat) < length ([[0, - (3 / 2)]] ! 0) \<and> [[0, - (3 / 2 :: real)]] ! 0 ! 0 = 0"
proof -
  have h: "compute_search_direction dot diagonal_entry_state [[1, 2]] [[0]]
             = Inr [[0, - (3 / 2)]]"
    by (simp add: diagonal_entry_state_def single_entry_state_def lbfgs_eval)
  from active_entries_zero[OF h, of 0 0] h show ?thesis by simp
qed

text \<open>
  C5. Without memory or with an empty history, \<open>compute_search_direction\<close> returns the
  negated gradient with every active entry put to \<open>0\<close>, for index arrays inside the
  fields; for the gradient \<open>[1, 1, 1, 1, 1]\<close> without active indices this is
  \<open>[-1, -1, -1, -1, -1]\<close>.
\<close>

theorem steepest_descent_direction:
  assumes "memory_vectors st \<le> 0 \<or> history_s st = []"
    and "length grad \<le> length idx_active"
    and "\<forall>j < length grad. \<forall>i \<in> set (idx_active ! j). i < length (grad ! j)"
  shows "compute_search_direction sp st grad idx_active
           = Inr (projected_negative grad idx_active)"
proof -
  have "compute_search_direction sp st grad idx_active
          = for_controls set_zero idx_active (map (map uminus) grad)"
    using assms(1) by (auto simp: compute_search_direction_def)
  also have "\<dots> = Inr (map2 (\<lambda>g a. map (\<lambda>k. if k \<in> set a then 0 else g ! k) [0..<length g])
                       (map (map uminus) grad) idx_active)"
    using assms(2,3) by (intro for_controls_set_zero_eq) auto
  also have "map2 (\<lambda>g a. map (\<lambda>k. if k \<in> set a then 0 else g ! k) [0..<length g])
                       (map (map uminus) grad) idx_active = projected_negative grad idx_active"
    unfolding projected_negative_def
    by (intro nth_equalityI) auto
  finally show ?thesis .
qed

theorem steepest_descent_direction_witness:
  "compute_search_direction dot zero_history_state [[1, 1, 1, 1, 1]] [[]]
     = Inr [[- 1, - 1, - 1, - 1, - 1]]"
proof -
  have "compute_search_direction dot zero_history_state [[1, 1, 1, 1, 1]] [[]]
          = Inr (projected_negative [[1, 1, 1, 1, 1]] [[]])"
    by (rule steepest_descent_direction)
       (simp_all add: zero_history_state_def single_entry_state_def)
  moreover have "projected_negative [[1, 1, 1, 1, 1]] [[]] = [[- 1, - 1, - 1, - 1, - 1]]"
    by (simp add: projected_negative_def upt_rec nth_Cons')
  ultimately show ?thesis by simp
qed

section \<open>Properties of run\<close>

subsection \<open>The history update\<close>

lemma push_history_zero:
  "sp y s = 0 \<Longrightarrow> push_history sp y s st = Inl ZeroDivisionError"
  by (simp add: push_history_def py_div_def ebind_def)

lemma push_history_negative:
  "sp y s < 0 \<Longrightarrow> memory_vectors st \<ge> 0 \<Longrightarrow>
   push_history sp y s st = Inr (st\<lparr>history_s := [], history_y := [], history_rho := []\<rparr>)"
  by (simp add: push_history_def py_div_def ebind_def Let_def)

lemma butlast_take_bounded:
  "length xs \<le> n \<Longrightarrow> n < Suc (length xs) \<Longrightarrow> butlast (x # xs) = take n (x # xs)"
  by (metis butlast_conv_take length_Cons diff_Suc_1 le_antisym less_Suc_eq_le)

lemma push_history_positive:
  assumes "sp y s > 0" and "memory_vectors st > 0" and "history_bounded st"
  shows "push_history sp y s st =
     Inr (st\<lparr>history_s := take (nat (memory_vectors st)) (s # history_s st),
             history_y := take (nat (memory_vectors st)) (y # history_y st),
             history_rho := take (nat (memory_vectors st)) ((1 / sp y s) # history_rho st)\<rparr>)"
proof (cases "int (length (s # history_s st)) > memory_vectors st")
  case True
  with assms(3) have n: "length (history_s st) \<le> nat (memory_vectors st)"
     "nat (memory_vectors st) < Suc (length (history_s st))"
    by (auto simp: history_bounded_def)
  from assms(3) have l: "length (history_y st) = length (history_s st)"
    "length (history_rho st) = length (history_s st)"
    by (simp_all add: history_bounded_def)
  have "butlast (s # history_s st) = take (nat (memory_vectors st)) (s # history_s st)"
    by (rule butlast_take_bounded) (use n in simp_all)
  moreover
  have "butlast (y # history_y st) = take (nat (memory_vectors st)) (y # history_y st)"
    by (rule butlast_take_bounded) (use n l in simp_all)
  moreover
  have "butlast ((1 / sp y s) # history_rho st)
          = take (nat (memory_vectors st)) ((1 / sp y s) # history_rho st)"
    by (rule butlast_take_bounded) (use n l in simp_all)
  ultimately show ?thesis using True assms(1)
    by (simp add: push_history_def py_div_def ebind_def Let_def pop_def)
next
  case False
  then have "length (s # history_s st) \<le> nat (memory_vectors st)" by simp
  with assms(3) have "take (nat (memory_vectors st)) (s # history_s st) = s # history_s st"
    "take (nat (memory_vectors st)) (y # history_y st) = y # history_y st"
    "take (nat (memory_vectors st)) ((1 / sp y s) # history_rho st) = (1 / sp y s) # history_rho st"
    by (auto simp: history_bounded_def)
  with False assms(1) show ?thesis
    by (simp add: push_history_def py_div_def ebind_def Let_def pop_def)
qed

lemma history_update_cases:
  assumes "history_bounded st" and "memory_vectors st > 0" and "history_update sp st = Inr st'"
  obtains (cleared) y s where
      "storage_loop (stepsize st) (reduced_gradient st) (gradients_prev st) (search_directions st)
         = Inr (y, s)"
      "sp y s < 0" "st' = st\<lparr>history_s := [], history_y := [], history_rho := []\<rparr>"
  | (kept) y s where
      "storage_loop (stepsize st) (reduced_gradient st) (gradients_prev st) (search_directions st)
         = Inr (y, s)"
      "sp y s > 0"
      "st' = st\<lparr>history_s := take (nat (memory_vectors st)) (s # history_s st),
             history_y := take (nat (memory_vectors st)) (y # history_y st),
             history_rho := take (nat (memory_vectors st)) ((1 / sp y s) # history_rho st)\<rparr>"
proof -
  from assms(2,3) obtain y s where
    sl: "storage_loop (stepsize st) (reduced_gradient st) (gradients_prev st) (search_directions st)
         = Inr (y, s)" and ph: "push_history sp y s st = Inr st'"
    by (auto simp: history_update_def ebind_def split: sum.splits)
  consider "sp y s = 0" | "sp y s < 0" | "sp y s > 0" by linarith
  then show thesis
  proof cases
    case 1
    with ph show ?thesis by (simp add: push_history_zero)
  next
    case 2
    with ph assms(2) push_history_negative[of sp y s st] have
      "st' = st\<lparr>history_s := [], history_y := [], history_rho := []\<rparr>" by simp
    with sl 2 show ?thesis by (rule cleared)
  next
    case 3
    from push_history_positive[of sp y s st] 3 assms(1,2) ph have
      "st' = st\<lparr>history_s := take (nat (memory_vectors st)) (s # history_s st),
             history_y := take (nat (memory_vectors st)) (y # history_y st),
             history_rho := take (nat (memory_vectors st)) ((1 / sp y s) # history_rho st)\<rparr>"
      by simp
    with sl 3 show ?thesis by (rule kept)
  qed
qed

lemma history_update_bounded:
  assumes "history_bounded st" and "history_update sp st = Inr st'"
  shows "history_bounded st' \<and> memory_vectors st' = memory_vectors st"
proof (cases "memory_vectors st > 0")
  case False
  with assms show ?thesis by (simp add: history_update_def)
next
  case True
  from assms(1) True assms(2) show ?thesis
  proof (cases rule: history_update_cases)
    case (cleared y s)
    with True show ?thesis by (simp add: history_bounded_def)
  next
    case (kept y s)
    with True assms(1) show ?thesis by (auto simp: history_bounded_def)
  qed
qed
subsection \<open>The invariant along run\<close>

text \<open>The deques as \<open>__init__\<close> creates them satisfy the invariant.\<close>

lemma created_history_bounded:
  "memory_vectors st > 0 \<Longrightarrow> history_s st = [] \<Longrightarrow> history_y st = []
     \<Longrightarrow> history_rho st = [] \<Longrightarrow> history_bounded st"
  by (simp add: history_bounded_def)

lemma choose_direction_frame:
  assumes "choose_direction sp idx st = Inr st1"
  shows "history_s st1 = history_s st \<and> history_y st1 = history_y st
       \<and> history_rho st1 = history_rho st \<and> memory_vectors st1 = memory_vectors st"
  using assms
  by (auto simp: choose_direction_def descent_safeguard_def ebind_def Let_def
      split: sum.splits if_splits)

lemma count_iteration_frame:
  assumes "count_iteration st = Inr (c, st')"
  shows "history_s st' = history_s st \<and> history_y st' = history_y st
       \<and> history_rho st' = history_rho st \<and> memory_vectors st' = memory_vectors st"
  using assms by (auto simp: count_iteration_def Let_def split: if_splits)

lemma update_gradient_frame:
  assumes "update_gradient env idx st = Inr st1"
  shows "history_s st1 = history_s st \<and> history_y st1 = history_y st
       \<and> history_rho st1 = history_rho st \<and> memory_vectors st1 = memory_vectors st"
  using assms
  by (auto simp: update_gradient_def ebind_def Let_def split: sum.splits if_splits)

lemma after_line_search_bounded:
  assumes "history_bounded st" and "after_line_search env idx st res = Inr (c, st')"
  shows "history_bounded st' \<and> memory_vectors st' = memory_vectors st"
proof -
  obtain w t broken where res: "res = (w, t, broken)" by (cases res) auto
  let ?st1 = "st\<lparr>world := w, stepsize := t, line_search_broken := broken\<rparr>"
  have b1: "history_bounded ?st1" using assms(1) by (simp add: history_bounded_def)
  show ?thesis
  proof (cases broken)
    case True
    with assms(2) res have "st' = ?st1"
      by (auto simp: after_line_search_def split: if_splits)
    with b1 show ?thesis by simp
  next
    case False
    with assms(2) res obtain st5 st6 where
      ug: "update_gradient env idx ?st1 = Inr st5"
      and u: "history_update (scalar_product env) st5 = Inr st6"
      and ci: "count_iteration st6 = Inr (c, st')"
      by (auto simp: after_line_search_def ebind_def split: sum.splits)
    from update_gradient_frame[OF ug] b1 have "history_bounded st5"
      by (simp add: history_bounded_def)
    from history_update_bounded[OF this u] count_iteration_frame[OF ci]
      update_gradient_frame[OF ug]
    show ?thesis by (simp add: history_bounded_def)
  qed
qed

lemma run_iteration_bounded:
  assumes "history_bounded st" and "run_iteration env idx st = Inr (c, st')"
  shows "history_bounded st' \<and> memory_vectors st' = memory_vectors st"
proof -
  from assms(2) obtain st1 res where
    cd: "choose_direction (scalar_product env) idx st = Inr st1"
    and al: "after_line_search env idx st1 res = Inr (c, st')"
    by (auto simp: run_iteration_def ebind_def split: sum.splits)
  from choose_direction_frame[OF cd] assms(1) have "history_bounded st1"
    by (simp add: history_bounded_def)
  from after_line_search_bounded[OF this al] choose_direction_frame[OF cd] show ?thesis by simp
qed

lemma run_loop_bounded:
  "history_bounded st \<Longrightarrow> run_loop env idx st = Inr st' \<Longrightarrow>
     history_bounded st' \<and> memory_vectors st' = memory_vectors st"
proof (induction env idx st rule: run_loop.induct)
  case (1 env idx st)
  show ?case
  proof (cases "converged st")
    case True
    with 1(3) have "st' = st" by (subst (asm) run_loop.simps) simp
    with 1(2) show ?thesis by simp
  next
    case False
    with 1(3) obtain c st1 where it: "run_iteration env idx st = Inr (c, st1)"
      and rest: "(if c then run_loop env idx st1 else Inr st1) = Inr st'"
      by (subst (asm) run_loop.simps) (auto split: sum.splits)
    from run_iteration_bounded[OF 1(2) it] have b: "history_bounded st1"
      "memory_vectors st1 = memory_vectors st" by simp_all
    show ?thesis
    proof (cases c)
      case True
      with rest have "run_loop env idx st1 = Inr st'" by simp
      from 1(1)[OF False it refl True b(1) this] b(2) show ?thesis by simp
    next
      case False
      with rest b show ?thesis by simp
    qed
  qed
qed

lemma run_start_frame:
  assumes "run_start env idx st = Inr st1"
  shows "history_s st1 = history_s st \<and> history_y st1 = history_y st
       \<and> history_rho st1 = history_rho st \<and> memory_vectors st1 = memory_vectors st"
  using assms
  by (auto simp: run_start_def ebind_def Let_def split: sum.splits if_splits)

lemma run_bounded:
  assumes "history_bounded st" and "run env idx st = Inr st'"
  shows "history_bounded st' \<and> memory_vectors st' = memory_vectors st"
proof -
  from assms(2) obtain st1 where s: "run_start env idx st = Inr st1"
    and l: "run_loop env idx st1 = Inr st'"
    by (auto simp: run_def ebind_def split: sum.splits)
  from run_start_frame[OF s] assms(1) have "history_bounded st1"
    by (simp add: history_bounded_def)
  from run_loop_bounded[OF this l] run_start_frame[OF s] show ?thesis by simp
qed
lemmas run_eval = run_def run_start_def run_iteration_def choose_direction_def
  descent_safeguard_def steepest_fallback_def after_line_search_def update_gradient_def
  history_update_def push_history_def count_iteration_def converged_def
  field_sub_def scaled_copy_def pop_def quadratic_provider_def

lemma truncating_run_start:
  "run_start quadratic_provider [[]] truncating_state =
     Inr (truncating_state\<lparr>iteration := 0, relative_norm := 1, reduced_gradient := [[1, 0]],
            gradient_norm := 1, gradient_norm_initial := 1\<rparr>)"
  by (simp add: truncating_state_def single_entry_state_def run_eval lbfgs_eval)

lemma truncating_iteration:
  "run_iteration quadratic_provider [[]]
     (truncating_state\<lparr>iteration := 0, relative_norm := 1, reduced_gradient := [[1, 0]],
            gradient_norm := 1, gradient_norm_initial := 1\<rparr>) =
   Inr (True, truncating_state\<lparr>iteration := 1, relative_norm := 0, reduced_gradient := [[0, 0]],
            gradient_norm := 0, gradient_norm_initial := 1, world := [[0, 0]],
            directional_derivative := - 1, history_s := [[[- 1, 0]]], history_y := [[[- 1, 0]]],
            history_rho := [1]\<rparr>)"
  by (simp add: truncating_state_def single_entry_state_def run_eval lbfgs_eval)

lemma truncating_run:
  "run quadratic_provider [[]] truncating_state =
   Inr (truncating_state\<lparr>iteration := 1, relative_norm := 0, reduced_gradient := [[0, 0]],
            gradient_norm := 0, gradient_norm_initial := 1, world := [[0, 0]],
            directional_derivative := - 1, history_s := [[[- 1, 0]]], history_y := [[[- 1, 0]]],
            history_rho := [1]\<rparr>)"
  apply (simp add: run_def truncating_run_start ebind_def)
  apply (subst run_loop.simps)
  apply (simp add: truncating_iteration)
  apply (subst run_loop.simps)
  apply (simp add: converged_def truncating_state_def single_entry_state_def)
  done

subsection \<open>The direction handed to the line search\<close>

lemma direction_update_swap:
  "st\<lparr>directional_derivative := a, search_directions := b\<rparr>
     = st\<lparr>search_directions := b, directional_derivative := a\<rparr>"
  by (cases st) simp

subsection \<open>The claims on run\<close>

lemma truncating_update:
  "history_update dot truncating_state =
     Inr (truncating_state\<lparr>history_s := [[[- 1, 0]]], history_y := [[[- 1, 0]]],
            history_rho := [1]\<rparr>)"
  by (simp add: truncating_state_def single_entry_state_def history_update_def
      push_history_def field_sub_def scaled_copy_def py_div_def ebind_def dot_def pop_def)

text \<open>
  C2 (the code departs from the claim at \<open>\<langle>y, s\<rangle> = 0\<close>). For \<open>\<langle>y, s\<rangle> < 0\<close> the update
  clears the three deques (\<open>push_history_negative\<close>), for \<open>\<langle>y, s\<rangle> > 0\<close> it keeps the new
  entry (\<open>push_history_positive\<close>). For \<open>\<langle>y, s\<rangle> = 0\<close> the division of line 145 raises
  \<open>ZeroDivisionError\<close> (\<open>push_history_zero\<close>) before the test of line 148 is reached: the
  history is not cleared. Here the update is run on a state in which the reduced
  gradient did not change over the step.
\<close>

theorem zero_curvature_raises:
  "history_update dot zero_curvature_state = Inl ZeroDivisionError"
  by (simp add: zero_curvature_state_def single_entry_state_def history_update_def
      push_history_def field_sub_def scaled_copy_def py_div_def ebind_def dot_def)

text \<open>
  C4. With \<open>memory_vectors = m > 0\<close> and deques of equal length at most \<open>m\<close> (as they
  are when created, empty), every history update that returns leaves deques of equal
  length at most \<open>m\<close>; they are empty (curvature violated) or hold the new pair at
  index 0, followed by the first \<open>m - 1\<close> older entries in their order. Every loop round
  and every call of \<open>run\<close> keeps the invariant.
\<close>

theorem history_invariant:
  assumes "history_bounded st" and "memory_vectors st > 0"
  shows "(\<forall>st'. history_update (scalar_product env) st = Inr st' \<longrightarrow>
            history_bounded st' \<and> memory_vectors st' = memory_vectors st
            \<and> (history_s st' = [] \<and> history_y st' = [] \<and> history_rho st' = []
               \<or> (\<exists>y s. storage_loop (stepsize st) (reduced_gradient st) (gradients_prev st)
                            (search_directions st) = Inr (y, s)
                     \<and> history_s st' = s # take (nat (memory_vectors st) - 1) (history_s st)
                     \<and> history_y st' = y # take (nat (memory_vectors st) - 1) (history_y st)
                     \<and> history_rho st' = (1 / scalar_product env y s)
                           # take (nat (memory_vectors st) - 1) (history_rho st))))
       \<and> (\<forall>c st'. run_iteration env idx st = Inr (c, st') \<longrightarrow> history_bounded st')
       \<and> (\<forall>st'. run env idx st = Inr st' \<longrightarrow> history_bounded st')"
proof (intro conjI allI impI)
  fix st' assume u: "history_update (scalar_product env) st = Inr st'"
  from history_update_bounded[OF assms(1) u]
  show "history_bounded st'" and "memory_vectors st' = memory_vectors st" by simp_all
  from assms u show "history_s st' = [] \<and> history_y st' = [] \<and> history_rho st' = []
     \<or> (\<exists>y s. storage_loop (stepsize st) (reduced_gradient st) (gradients_prev st)
                  (search_directions st) = Inr (y, s)
           \<and> history_s st' = s # take (nat (memory_vectors st) - 1) (history_s st)
           \<and> history_y st' = y # take (nat (memory_vectors st) - 1) (history_y st)
           \<and> history_rho st' = (1 / scalar_product env y s)
                 # take (nat (memory_vectors st) - 1) (history_rho st))"
  proof (cases rule: history_update_cases)
    case (cleared y s)
    then show ?thesis by simp
  next
    case (kept y s)
    from assms(2) have "nat (memory_vectors st) > 0" by simp
    with kept show ?thesis by (auto simp: take_Cons')
  qed
next
  fix c st' assume "run_iteration env idx st = Inr (c, st')"
  from run_iteration_bounded[OF assms(1) this] show "history_bounded st'" by simp
next
  fix st' assume "run env idx st = Inr st'"
  from run_bounded[OF assms(1) this] show "history_bounded st'" by simp
qed

theorem history_invariant_witness:
  "history_bounded truncating_state \<and> memory_vectors truncating_state > 0
   \<and> history_update (scalar_product quadratic_provider) truncating_state
       = Inr (truncating_state\<lparr>history_s := [[[- 1, 0]]], history_y := [[[- 1, 0]]],
                history_rho := [1]\<rparr>)
   \<and> history_bounded (truncating_state\<lparr>history_s := [[[- 1, 0]]], history_y := [[[- 1, 0]]],
                history_rho := [1]\<rparr>)
   \<and> (\<exists>st'. run quadratic_provider [[]] truncating_state = Inr st' \<and> history_bounded st')"
proof -
  have b: "history_bounded truncating_state" and m: "memory_vectors truncating_state > 0"
    by (simp_all add: truncating_state_def single_entry_state_def history_bounded_def)
  have u: "history_update (scalar_product quadratic_provider) truncating_state
       = Inr (truncating_state\<lparr>history_s := [[[- 1, 0]]], history_y := [[[- 1, 0]]],
                history_rho := [1]\<rparr>)"
    using truncating_update by (simp add: quadratic_provider_def)
  from history_invariant[OF b m, of quadratic_provider "[[]]"] u truncating_run b m
  show ?thesis by simp
qed

text \<open>
  C6. In a loop round whose L-BFGS direction is \<open>d\<close>, \<open>line_search.search\<close> is called
  with \<open>- reduced_gradient\<close> when \<open>\<langle>d, reduced_gradient\<rangle> > 0\<close> and with \<open>d\<close> itself
  otherwise; the rest of the round goes on from that direction. Here
  \<open>form_handler.control_dim\<close> is the number of control fields.
\<close>

theorem safeguard_before_line_search:
  assumes "compute_search_direction (scalar_product env) st (reduced_gradient st) idx = Inr d"
    and "control_dim st = length (reduced_gradient st)"
  shows "run_iteration env idx st =
     (let dd = scalar_product env d (reduced_gradient st);
          dir = (if dd > 0 then map (map uminus) (reduced_gradient st) else d);
          st1 = st\<lparr>search_directions := dir, directional_derivative := dd\<rparr>
      in ebind (line_search env dir st1) (after_line_search env idx st1))"
proof -
  from compute_search_direction_length[OF assms(1)]
  have len: "length d = length (reduced_gradient st)" .
  with assms show ?thesis
    by (auto simp: run_iteration_def choose_direction_def descent_safeguard_def
        steepest_fallback_def ebind_def Let_def direction_update_swap split: sum.splits)
qed

theorem safeguard_before_line_search_witness:
  "compute_search_direction (scalar_product quadratic_provider) uphill_state
      (reduced_gradient uphill_state) [[]] = Inr [[1, 0]]
   \<and> scalar_product quadratic_provider [[1, 0]] (reduced_gradient uphill_state) = 1
   \<and> run_iteration quadratic_provider [[]] uphill_state =
       ebind (line_search quadratic_provider [[- 1, 0]]
                (uphill_state\<lparr>search_directions := [[- 1, 0]], directional_derivative := 1\<rparr>))
         (after_line_search quadratic_provider [[]]
            (uphill_state\<lparr>search_directions := [[- 1, 0]], directional_derivative := 1\<rparr>))"
proof -
  have c: "compute_search_direction (scalar_product quadratic_provider) uphill_state
      (reduced_gradient uphill_state) [[]] = Inr [[1, 0]]"
    by (simp add: uphill_state_def single_entry_state_def quadratic_provider_def lbfgs_eval)
  have n: "control_dim uphill_state = length (reduced_gradient uphill_state)"
    by (simp add: uphill_state_def single_entry_state_def)
  have sp: "scalar_product quadratic_provider [[1, 0]] (reduced_gradient uphill_state) = 1"
    by (simp add: uphill_state_def single_entry_state_def quadratic_provider_def dot_def)
  have rg: "reduced_gradient uphill_state = [[1, 0]]"
    by (simp add: uphill_state_def single_entry_state_def)
  from safeguard_before_line_search[OF c n] c sp show ?thesis
    by (simp add: rg Let_def)
qed

section \<open>Properties of the mesh quality and of the mesh handler\<close>

subsection \<open>The quality of one triangle\<close>

lemma arccos_sqrt3_half: "arccos (sqrt 3 / 2) = pi / 6"
proof -
  have "arccos (cos (pi / 6)) = pi / 6" by (rule arccos_cos) (simp_all add: field_simps)
  then show ?thesis by (simp add: cos_30)
qed

lemma right_triangle_angles:
  "angles_triangle right_triangle [0, 1, 2] = Inr [pi / 6, pi / 2, pi / 3]"
  by (simp add: angles_triangle_def right_triangle_def vertex_point_def point_of_def
      normalized_def p_norm_def ebind_def arccos_sqrt3_half)

lemma right_triangle_fields:
  "cells right_triangle = [[0, 1, 2]]" "tdim right_triangle = 2"
  by (simp_all add: right_triangle_def)

lemma skewness_angle_values:
  "skewness_angle (pi / 3) (pi / 6) = 1 / 2"
  "skewness_angle (pi / 3) (pi / 2) = 3 / 4"
  "skewness_angle (pi / 3) (pi / 3) = 1"
  by (simp_all add: skewness_angle_def field_simps max_def)

lemma maximum_angle_values:
  "maximum_angle_angle (pi / 3) (pi / 6) = 1"
  "maximum_angle_angle (pi / 3) (pi / 2) = 3 / 4"
  "maximum_angle_angle (pi / 3) (pi / 3) = 1"
  by (simp_all add: maximum_angle_angle_def field_simps max_def)

lemma right_triangle_skewness: "skewness right_triangle = Inr [1 / 2]"
  using right_triangle_angles
  by (simp add: skewness_def right_triangle_fields cell_angles_def ebind_def
      skewness_angle_values)

lemma right_triangle_maximum_angle: "maximum_angle right_triangle = Inr [3 / 4]"
  using right_triangle_angles
  by (simp add: maximum_angle_def right_triangle_fields cell_angles_def ebind_def
      maximum_angle_values)

text \<open>In every mesh the average skewness is computed from \<open>maximum_angle\<close>.\<close>

lemma avg_skewness_eq_avg_maximum_angle: "avg_skewness m = avg_maximum_angle m"
  by (simp add: avg_skewness_def avg_maximum_angle_def)

text \<open>
  C7 (the code departs from the claim). With the measure \<open>skewness\<close> and the type
  \<open>avg\<close>, \<open>compute_mesh_quality\<close> stores \<open>avg_skewness\<close>, which averages the cell values
  of \<open>maximum_angle\<close> and not those of \<open>skewness\<close>. For the triangle with the angles
  \<open>\<pi>/6\<close>, \<open>\<pi>/2\<close>, \<open>\<pi>/3\<close> the stored score is \<open>3/4\<close>, while the average of the cell
  skewness is \<open>1/2\<close>.
\<close>

theorem avg_skewness_is_maximum_angle:
  "avg_skewness right_triangle = Inr (3 / 4)
   \<and> ebind (skewness right_triangle) average = Inr (1 / 2)
   \<and> compute_mesh_quality test_library skewness_handler
       = Inr (skewness_handler\<lparr>current_mesh_quality := 3 / 4\<rparr>)"
  by (simp add: avg_skewness_def right_triangle_skewness right_triangle_maximum_angle
      average_def ebind_def compute_mesh_quality_def skewness_handler_def)

subsection \<open>Moving the mesh\<close>

lemma min_element_Min: "x \<noteq> [] \<Longrightarrow> min_element x = Inr (Min (set x))"
proof (induction x rule: min_element.induct)
  case (3 x y ys)
  then show ?case by (simp add: ebind_def)
qed simp_all

lemma max_element_Max: "x \<noteq> [] \<Longrightarrow> max_element x = Inr (Max (set x))"
proof (induction x rule: max_element.induct)
  case (3 x y ys)
  then show ?case by (simp add: ebind_def)
qed simp_all

lemma test_handler_rejects: "test_a_priori test_library test_handler vector_cg1 = Inr False"
  by (simp add: test_a_priori_def test_library_def test_handler_def ebind_def py_div_def)

lemma map2_add_shape:
  "map length d = map length c \<Longrightarrow> map length (map2 (map2 (+)) c (d :: real list list)) = map length c"
proof (induction c arbitrary: d)
  case (Cons a c)
  then show ?case by (cases d) auto
qed simp

lemma ale_move_shape:
  assumes "ale_move lib m t = Inr m'"
  shows "map length (coordinates m') = map length (coordinates m)"
proof -
  from assms have sh: "map length (vertex_values lib m t) = map length (coordinates m)"
    and c: "coordinates m' = map2 (map2 (+)) (coordinates m) (vertex_values lib m t)"
    by (auto simp: ale_move_def Let_def split: if_splits)
  from map2_add_shape[OF sh] c show ?thesis by simp
qed

lemma ale_move_frame:
  "ale_move lib m t = Inr m' \<Longrightarrow> m' = m\<lparr>coordinates := coordinates m'\<rparr>"
  by (auto simp: ale_move_def Let_def split: if_splits)

lemma compute_mesh_quality_frame:
  "compute_mesh_quality lib h = Inr h' \<Longrightarrow> mesh h' = mesh h \<and> old_coordinates h' = old_coordinates h"
  by (auto simp: compute_mesh_quality_def ebind_def Let_def split: if_splits sum.splits)

lemma revert_restores:
  assumes "old_coordinates h = Some c" and "map length c = map length (coordinates (mesh h))"
  shows "revert_transformation h = (Inr (), h\<lparr>mesh := (mesh h)\<lparr>coordinates := c\<rparr>\<rparr>)"
  using assms by (simp add: revert_transformation_def)

lemma test_a_posteriori_snapshot:
  assumes "old_coordinates h = Some c" and "map length c = map length (coordinates (mesh h))"
    and "test_a_posteriori lib h = (r, h')"
  shows "old_coordinates h' = Some c \<and> mesh h' = (mesh h)\<lparr>coordinates := coordinates (mesh h')\<rparr>
       \<and> map length (coordinates (mesh h')) = map length c"
proof (cases "self_intersections lib (mesh h) 0 (coordinates (mesh h))")
  case (Inl e)
  with assms show ?thesis by (auto simp: test_a_posteriori_def)
next
  case (Inr b)
  show ?thesis
  proof (cases b)
    case True
    with Inr assms revert_restores[OF assms(1,2)] show ?thesis
      by (auto simp: test_a_posteriori_def)
  next
    case False
    with Inr assms show ?thesis
      by (auto simp: test_a_posteriori_def split: sum.splits dest!: compute_mesh_quality_frame)
  qed
qed

lemma accepted_move:
  "move_mesh test_library vector_cg1 (test_handler\<lparr>volume_change := Finite 4\<rparr>) =
     (Inr True,
      test_handler\<lparr>volume_change := Finite 4,
        old_coordinates := Some [[sqrt 3, 0], [0, 0], [0, 1]],
        mesh := right_triangle\<lparr>coordinates := [[sqrt 3 + 1, 0], [1, 0], [1, 1]]\<rparr>\<rparr>)"
  by (simp add: move_mesh_def test_a_priori_def test_a_posteriori_def ale_move_def
      compute_mesh_quality_def min_radius_ratios_def gather_def
      test_library_def test_handler_def vector_cg1_def right_triangle_def ebind_def py_div_def)

text \<open>
  C8. With a finite \<open>volume_change > 1\<close> and a converged solve with the cell values
  \<open>x\<close>, the a priori check accepts if and only if \<open>min x \<ge> 1 / volume_change\<close> and
  \<open>max x \<le> volume_change\<close>; with \<open>volume_change = \<infinity>\<close> it accepts; when the check
  rejects, \<open>move_mesh\<close> returns \<open>False\<close> and leaves the handler, and so the mesh, as it
  was.
\<close>

theorem a_priori_check:
  "(volume_change h = Finite vc \<and> vc > 1 \<and> prior_solve lib (mesh h) t = Inr (reason, x)
      \<and> reason \<ge> 0 \<and> x \<noteq> []
      \<longrightarrow> test_a_priori lib h t = Inr (Min (set x) \<ge> 1 / vc \<and> Max (set x) \<le> vc))
   \<and> (volume_change h = Infinite \<longrightarrow> test_a_priori lib h t = Inr True)
   \<and> (family (ufl_element t) = ''Lagrange'' \<and> degree (ufl_element t) = 1
        \<and> test_a_priori lib h t = Inr False
      \<longrightarrow> move_mesh lib t h = (Inr False, h))"
  by (auto simp: test_a_priori_def move_mesh_def ebind_def py_div_def min_element_Min
      max_element_Max)

theorem a_priori_check_witness:
  "volume_change test_handler = Finite 2 \<and> (2::real) > 1
   \<and> prior_solve test_library (mesh test_handler) vector_cg1 = Inr (2, [1, 3])
   \<and> test_a_priori test_library test_handler vector_cg1 = Inr False
   \<and> test_a_priori test_library (test_handler\<lparr>volume_change := Infinite\<rparr>) vector_cg1 = Inr True
   \<and> move_mesh test_library vector_cg1 test_handler = (Inr False, test_handler)"
proof -
  have v: "volume_change test_handler = Finite 2"
    and p: "prior_solve test_library (mesh test_handler) vector_cg1 = Inr (2, [1, 3])"
    and e: "family (ufl_element vector_cg1) = ''Lagrange'' \<and> degree (ufl_element vector_cg1) = 1"
    and i: "volume_change (test_handler\<lparr>volume_change := Infinite\<rparr>) = Infinite"
    by (simp_all add: test_handler_def test_library_def vector_cg1_def)
  from a_priori_check[of test_handler 2 test_library vector_cg1 2 "[1, 3]"] v p
  have r: "test_a_priori test_library test_handler vector_cg1 = Inr False" by simp
  from a_priori_check[of test_handler 2 test_library vector_cg1 2 "[1, 3]"] r e
  have m: "move_mesh test_library vector_cg1 test_handler = (Inr False, test_handler)" by simp
  from a_priori_check[of "test_handler\<lparr>volume_change := Infinite\<rparr>" 2 test_library vector_cg1
      2 "[1, 3]"] i
  have "test_a_priori test_library (test_handler\<lparr>volume_change := Infinite\<rparr>) vector_cg1
          = Inr True" by simp
  with v p r m show ?thesis by simp
qed

text \<open>
  C9. For a transformation that passes the assertion and the a priori check,
  \<open>move_mesh\<close> followed by \<open>revert_transformation\<close> gives back the mesh, with exactly
  the vertex coordinates of the snapshot taken before the move, whatever \<open>move_mesh\<close>
  returned.
\<close>

theorem move_then_revert:
  assumes "family (ufl_element t) = ''Lagrange'' \<and> degree (ufl_element t) = 1"
    and "test_a_priori lib h t = Inr True"
  shows "\<exists>h''. revert_transformation (snd (move_mesh lib t h)) = (Inr (), h'')
            \<and> mesh h'' = mesh h"
proof -
  let ?h1 = "h\<lparr>old_coordinates := Some (coordinates (mesh h))\<rparr>"
  show ?thesis
  proof (cases "ale_move lib (mesh ?h1) t")
    case (Inl e)
    with assms have "snd (move_mesh lib t h) = ?h1" by (simp add: move_mesh_def)
    then show ?thesis by (simp add: revert_transformation_def)
  next
    case (Inr m')
    let ?h2 = "?h1\<lparr>mesh := m'\<rparr>"
    obtain r h' where ap: "test_a_posteriori lib ?h2 = (r, h')" by (cases "test_a_posteriori lib ?h2")
    from Inr have sh: "map length (coordinates m') = map length (coordinates (mesh h))"
      and fr: "m' = (mesh h)\<lparr>coordinates := coordinates m'\<rparr>"
      using ale_move_shape[of lib "mesh ?h1" t m'] ale_move_frame[of lib "mesh ?h1" t m'] by simp_all
    from test_a_posteriori_snapshot[OF _ _ ap, of "coordinates (mesh h)"] sh
    have s: "old_coordinates h' = Some (coordinates (mesh h))"
      "mesh h' = m'\<lparr>coordinates := coordinates (mesh h')\<rparr>"
      "map length (coordinates (mesh h')) = map length (coordinates (mesh h))" by simp_all
    from Inr assms ap have "snd (move_mesh lib t h) = h'" by (simp add: move_mesh_def)
    moreover from revert_restores[OF s(1)] s(3)
    have "revert_transformation h' = (Inr (), h'\<lparr>mesh := (mesh h')\<lparr>coordinates := coordinates (mesh h)\<rparr>\<rparr>)"
      by simp
    moreover have "(mesh h')\<lparr>coordinates := coordinates (mesh h)\<rparr> = mesh h"
      by (subst s(2), subst fr) simp
    ultimately show ?thesis by simp
  qed
qed

theorem move_then_revert_witness:
  "family (ufl_element vector_cg1) = ''Lagrange'' \<and> degree (ufl_element vector_cg1) = 1
   \<and> test_a_priori test_library (test_handler\<lparr>volume_change := Finite 4\<rparr>) vector_cg1
       = Inr True
   \<and> coordinates (mesh (snd (move_mesh test_library vector_cg1
         (test_handler\<lparr>volume_change := Finite 4\<rparr>)))) = [[sqrt 3 + 1, 0], [1, 0], [1, 1]]
   \<and> (\<exists>h''. revert_transformation (snd (move_mesh test_library vector_cg1
                 (test_handler\<lparr>volume_change := Finite 4\<rparr>))) = (Inr (), h'')
          \<and> mesh h'' = mesh (test_handler\<lparr>volume_change := Finite 4\<rparr>))"
proof -
  have e: "family (ufl_element vector_cg1) = ''Lagrange'' \<and> degree (ufl_element vector_cg1) = 1"
    by (simp add: vector_cg1_def)
  have a: "test_a_priori test_library (test_handler\<lparr>volume_change := Finite 4\<rparr>) vector_cg1
       = Inr True"
    by (simp add: test_a_priori_def test_library_def test_handler_def ebind_def py_div_def)
  from move_then_revert[OF e a] e a accepted_move show ?thesis by simp
qed

text \<open>
  C10 (amended). For every argument whose element family is not \<open>Lagrange\<close> or whose
  degree is not 1, \<open>move_mesh\<close> fails with an assertion error, whatever the library
  calls would give (none is made), and leaves the handler and its mesh as they were.
\<close>

theorem move_mesh_asserts:
  assumes "\<not> (family (ufl_element t) = ''Lagrange'' \<and> degree (ufl_element t) = 1)"
  shows "move_mesh lib t h = (Inl AssertionError, h)"
  using assms by (simp add: move_mesh_def)

theorem move_mesh_asserts_witness:
  "\<not> (family (ufl_element vector_cg2) = ''Lagrange'' \<and> degree (ufl_element vector_cg2) = 1)
   \<and> move_mesh test_library vector_cg2 test_handler = (Inl AssertionError, test_handler)"
proof -
  have n: "\<not> (family (ufl_element vector_cg2) = ''Lagrange''
               \<and> degree (ufl_element vector_cg2) = 1)"
    by (simp add: vector_cg2_def)
  from move_mesh_asserts[OF n, of test_library test_handler] n show ?thesis by simp
qed

text \<open>
  C10 as stated fails: the assertion looks at the family and the degree only. A scalar
  Lagrange field of degree 1 is not a vector field, passes the assertion, and with
  \<open>volume_change = \<infinity>\<close> passes the a priori check; \<open>move_mesh\<close> does not fail with an
  assertion error.
\<close>

theorem scalar_field_passes_assertion:
  "\<not> is_vector_cg1 scalar_cg1
   \<and> test_a_priori test_library (test_handler\<lparr>volume_change := Infinite\<rparr>) scalar_cg1
       = Inr True
   \<and> fst (move_mesh test_library scalar_cg1 (test_handler\<lparr>volume_change := Infinite\<rparr>))
       \<noteq> Inl AssertionError"
  by (simp add: is_vector_cg1_def scalar_cg1_def move_mesh_def test_a_priori_def ale_move_def
      test_library_def test_handler_def right_triangle_def)

end
